theory Spec2Isabelle
  imports Main
begin

section \<open>Data model\<close>

text \<open>
  The identity record of \<^verbatim>\<open>types/user.types.ts\<close> (\<^verbatim>\<open>IUser\<close>). Dates are
  milliseconds since the epoch (\<^verbatim>\<open>Date.now()\<close>), optional fields are options.
  The field \<^verbatim>\<open>_id\<close> is written \<open>u_id\<close>. The password is an option because a
  query projection (\<^verbatim>\<open>.select('-password')\<close>) yields a document without it.
\<close>

datatype role = RoleUser | RoleAdmin

datatype theme = Light | Dark | System

record notifications =
  notify_email :: bool
  notify_push :: bool
  notify_mentions :: bool
  notify_assignments :: bool

record preferences =
  notifications :: notifications
  theme :: theme
  language :: string

record IUser =
  u_id :: string
  email :: string
  password :: "string option"
  firstName :: string
  lastName :: string
  avatar :: "string option"
  isEmailVerified :: bool
  emailVerificationToken :: "string option"
  emailVerificationExpires :: "int option"
  passwordResetToken :: "string option"
  passwordResetExpires :: "int option"
  lastLogin :: "int option"
  isActive :: bool
  role :: role
  preferences :: preferences
  createdAt :: int
  updatedAt :: int

text \<open>
  A session token of the \<^verbatim>\<open>jsonwebtoken\<close> library, modelled symbolically: the claims
  it carries and the key its signature verifies under. Times are in seconds, as the
  library has them.
\<close>

record jwt =
  jwt_userId :: string
  jwt_email :: "string option"
  jwt_role :: "string option"
  jwt_iat :: int
  jwt_exp :: "int option"
  jwt_iss :: "string option"
  jwt_aud :: "string list"
  jwt_key :: string

datatype jwt_error = JsonWebTokenError string | TokenExpiredError

text \<open>The process environment read by \<^verbatim>\<open>utils/jwt.ts\<close> and the login handler.\<close>

record env =
  env_JWT_SECRET :: "string option"
  env_JWT_REFRESH_SECRET :: "string option"
  env_NODE_ENV :: "string option"

text \<open>The user object of the login response.\<close>

record login_user =
  lu_id :: string
  lu_email :: string
  lu_firstName :: string
  lu_lastName :: string
  lu_avatar :: "string option"
  lu_isEmailVerified :: bool
  lu_role :: role
  lu_preferences :: preferences
  lu_lastLogin :: "int option"

datatype resp_data =
    NoData
  | UserSummary string string string string bool
  | LoginData login_user jwt
  | ProfileData IUser

text \<open>
  The response envelope: the HTTP status and the JSON body
  (\<^verbatim>\<open>success\<close>, \<^verbatim>\<open>message\<close>, \<^verbatim>\<open>data\<close>, \<^verbatim>\<open>errorId\<close>, and the rate limiter's
  \<^verbatim>\<open>retryAfter\<close>).
\<close>

record response =
  status :: nat
  success :: bool
  message :: string
  data :: resp_data
  errorId :: "string option"
  retryAfter :: "int option"

record cookie =
  cookie_name :: string
  cookie_value :: jwt
  httpOnly :: bool
  secure :: bool
  sameSite :: string
  maxAge :: int

text \<open>A middleware either calls \<^verbatim>\<open>next()\<close> (with what it attached to the request) or responds.\<close>

datatype 'a middleware_result = Next 'a | Responded response

text \<open>A query-string parameter: absent, a string, or a non-string (repeated parameter).\<close>

datatype query_value = QAbsent | QString string | QArray "string list"

text \<open>One rate-limit window: \<^verbatim>\<open>{ count, resetTime }\<close>.\<close>

record client =
  count :: int
  resetTime :: int

type_synonym clients = "string \<rightharpoonup> client"

section \<open>Session tokens (utils/jwt.ts)\<close>

definition JWT_SECRET :: "env \<Rightarrow> string" where
  "JWT_SECRET e =
     (case env_JWT_SECRET e of
        None \<Rightarrow> ''your-super-secret-jwt-key-change-this-in-production''
      | Some s \<Rightarrow> if s = [] then ''your-super-secret-jwt-key-change-this-in-production'' else s)"

definition JWT_REFRESH_SECRET :: "env \<Rightarrow> string" where
  "JWT_REFRESH_SECRET e =
     (case env_JWT_REFRESH_SECRET e of
        None \<Rightarrow> ''your-super-secret-refresh-key-change-this-in-production''
      | Some s \<Rightarrow> if s = [] then ''your-super-secret-refresh-key-change-this-in-production'' else s)"

definition role_string :: "role \<Rightarrow> string" where
  "role_string r = (case r of RoleUser \<Rightarrow> ''user'' | RoleAdmin \<Rightarrow> ''admin'')"

text \<open>
  \<^verbatim>\<open>jwt.sign(payload, key, { expiresIn, issuer, audience })\<close>: the library stamps
  \<^verbatim>\<open>iat\<close> with the clock in seconds and \<^verbatim>\<open>exp = iat + expiresIn\<close>.
\<close>

definition jwt_sign ::
  "string \<Rightarrow> string option \<Rightarrow> string option \<Rightarrow> string \<Rightarrow> int \<Rightarrow> string \<Rightarrow> string \<Rightarrow> int \<Rightarrow> jwt" where
  "jwt_sign uid em rl key expiresIn iss aud now =
     \<lparr> jwt_userId = uid, jwt_email = em, jwt_role = rl,
       jwt_iat = now div 1000, jwt_exp = Some (now div 1000 + expiresIn),
       jwt_iss = Some iss, jwt_aud = [aud], jwt_key = key \<rparr>"

text \<open>
  \<^verbatim>\<open>jwt.verify(token, key, { issuer, audience })\<close>: the library decodes the string
  (\<open>decode\<close>, its parser, is a parameter), checks the signature against the key, then
  the expiry (\<^verbatim>\<open>clock >= exp\<close> is expired), the audience and the issuer.
\<close>

definition jwt_verify ::
  "(string \<Rightarrow> jwt option) \<Rightarrow> string \<Rightarrow> string \<Rightarrow> string \<Rightarrow> string \<Rightarrow> int \<Rightarrow> jwt_error + jwt" where
  "jwt_verify decode token key iss aud now =
     (case decode token of
        None \<Rightarrow> Inl (JsonWebTokenError ''jwt malformed'')
      | Some t \<Rightarrow>
          if jwt_key t \<noteq> key then Inl (JsonWebTokenError ''invalid signature'')
          else if (case jwt_exp t of None \<Rightarrow> False | Some e \<Rightarrow> e \<le> now div 1000)
            then Inl TokenExpiredError
          else if aud \<notin> set (jwt_aud t) then Inl (JsonWebTokenError ''jwt audience invalid'')
          else if jwt_iss t \<noteq> Some iss then Inl (JsonWebTokenError ''jwt issuer invalid'')
          else Inr t)"

definition jwt_error_message :: "jwt_error \<Rightarrow> string" where
  "jwt_error_message e = (case e of JsonWebTokenError m \<Rightarrow> m | TokenExpiredError \<Rightarrow> ''jwt expired'')"

definition generateAccessToken :: "env \<Rightarrow> int \<Rightarrow> IUser \<Rightarrow> jwt" where
  "generateAccessToken e now user =
     jwt_sign (u_id user) (Some (email user)) (Some (role_string (role user)))
       (JWT_SECRET e) (7 * 24 * 60 * 60) ''taskflow-api'' ''taskflow-app'' now"

definition generateRefreshToken :: "env \<Rightarrow> int \<Rightarrow> string \<Rightarrow> jwt" where
  "generateRefreshToken e now userId =
     jwt_sign userId None None
       (JWT_REFRESH_SECRET e) (30 * 24 * 60 * 60) ''taskflow-api'' ''taskflow-app'' now"

text \<open>Both verifiers rethrow any library error as one \<^verbatim>\<open>Error\<close> with a prefixed message.\<close>

definition verifyAccessToken :: "env \<Rightarrow> (string \<Rightarrow> jwt option) \<Rightarrow> int \<Rightarrow> string \<Rightarrow> string + jwt" where
  "verifyAccessToken e decode now token =
     (case jwt_verify decode token (JWT_SECRET e) ''taskflow-api'' ''taskflow-app'' now of
        Inl err \<Rightarrow> Inl (''Invalid or expired access token: '' @ jwt_error_message err)
      | Inr payload \<Rightarrow> Inr payload)"

definition verifyRefreshToken :: "env \<Rightarrow> (string \<Rightarrow> jwt option) \<Rightarrow> int \<Rightarrow> string \<Rightarrow> string + jwt" where
  "verifyRefreshToken e decode now token =
     (case jwt_verify decode token (JWT_REFRESH_SECRET e) ''taskflow-api'' ''taskflow-app'' now of
        Inl err \<Rightarrow> Inl (''Invalid or expired refresh token: '' @ jwt_error_message err)
      | Inr payload \<Rightarrow> Inr payload)"

text \<open>
  \<^verbatim>\<open>extractTokenFromHeader(authHeader?: string): string | null\<close>. A missing or empty
  header is falsy; \<^verbatim>\<open>startsWith('Bearer ')\<close> then \<^verbatim>\<open>substring(7)\<close>.
\<close>

definition extractTokenFromHeader :: "string option \<Rightarrow> string option" where
  "extractTokenFromHeader authHeader =
     (case authHeader of
        None \<Rightarrow> None
      | Some h \<Rightarrow>
          if h = [] then None
          else if take 7 h \<noteq> ''Bearer '' then None
          else Some (drop 7 h))"

section \<open>The account store\<close>

text \<open>
  The user collection is a list of documents. \<^verbatim>\<open>User.findOne(filter)\<close> returns the
  first document that satisfies the filter, \<^verbatim>\<open>user.save()\<close> writes the loaded and
  modified document back under its \<^verbatim>\<open>_id\<close>. A loaded document is the stored one:
  a handler that loads without the password never reads it, and its save leaves the
  stored password as it was, which writing the whole document back also does. The store
  is taken to answer every query and to accept every save, so the handlers' catch-all 500
  branches, which only a failing store reaches, have no counterpart here.
\<close>

definition findOne :: "(IUser \<Rightarrow> bool) \<Rightarrow> IUser list \<Rightarrow> IUser option" where
  "findOne flt store = find flt store"

definition save :: "IUser \<Rightarrow> IUser list \<Rightarrow> IUser list" where
  "save user store = map (\<lambda>d. if u_id d = u_id user then user else d) store"

text \<open>\<^verbatim>\<open>User.findById(id).select('-password')\<close>: the document without its password.\<close>

definition findById_without_password :: "string \<Rightarrow> IUser list \<Rightarrow> IUser option" where
  "findById_without_password i store =
     map_option (\<lambda>d. d\<lparr>password := None\<rparr>) (find (\<lambda>d. u_id d = i) store)"

text \<open>The query operator \<^verbatim>\<open>{ $gt: now }\<close> on an optional date: an absent field never matches.\<close>

definition date_gt :: "int option \<Rightarrow> int \<Rightarrow> bool" where
  "date_gt d now = (case d of None \<Rightarrow> False | Some e \<Rightarrow> now < e)"

text \<open>
  \<^verbatim>\<open>String.prototype.toLowerCase\<close> belongs to the JavaScript runtime (it lowers by the
  Unicode case mapping). The handlers that normalise an email take it as the parameter
  \<open>toLowerCase\<close>, and nothing is assumed about it.
\<close>

text \<open>
  Modelled from the spec: the method \<^verbatim>\<open>generateEmailVerificationToken\<close> of the user
  model (\<^verbatim>\<open>Models/user.ts\<close>), which is not among the sources. It is the spec's
  \<^verbatim>\<open>issue(kind)\<close> for the verification kind: a random value \<open>rnd\<close> is generated, its hash
  and \<^verbatim>\<open>expiry = now + window[kind]\<close> (24 hours) are put on the identity, and the
  plaintext is returned. The caller saves the identity.
\<close>

definition generateEmailVerificationToken ::
  "(string \<Rightarrow> string) \<Rightarrow> string \<Rightarrow> int \<Rightarrow> IUser \<Rightarrow> string \<times> IUser" where
  "generateEmailVerificationToken sha256 rnd now user =
     (rnd, user\<lparr> emailVerificationToken := Some (sha256 rnd),
                 emailVerificationExpires := Some (now + 24 * 60 * 60 * 1000) \<rparr>)"

text \<open>
  Modelled from the spec: the method \<^verbatim>\<open>generatePasswordResetToken\<close> of the user model,
  not among the sources either: \<^verbatim>\<open>issue(kind)\<close> for the reset kind, with a window of
  10 minutes.
\<close>

definition generatePasswordResetToken ::
  "(string \<Rightarrow> string) \<Rightarrow> string \<Rightarrow> int \<Rightarrow> IUser \<Rightarrow> string \<times> IUser" where
  "generatePasswordResetToken sha256 rnd now user =
     (rnd, user\<lparr> passwordResetToken := Some (sha256 rnd),
                 passwordResetExpires := Some (now + 10 * 60 * 1000) \<rparr>)"

text \<open>
  Modelled from the spec: the method \<^verbatim>\<open>comparePassword\<close> of the user model, the spec's
  \<^verbatim>\<open>verify(plaintext, hash)\<close>. The credential hasher's comparison \<open>cmp\<close> is a
  parameter.
\<close>

definition comparePassword :: "(string \<Rightarrow> string \<Rightarrow> bool) \<Rightarrow> IUser \<Rightarrow> string \<Rightarrow> bool" where
  "comparePassword cmp user candidatePassword =
     (case password user of None \<Rightarrow> False | Some h \<Rightarrow> cmp candidatePassword h)"

section \<open>Handlers (controllers/authController.ts)\<close>

definition failure :: "nat \<Rightarrow> string \<Rightarrow> response" where
  "failure st msg =
     \<lparr> status = st, success = False, message = msg, data = NoData,
       errorId = None, retryAfter = None \<rparr>"

definition failure_with_id :: "nat \<Rightarrow> string \<Rightarrow> string \<Rightarrow> response" where
  "failure_with_id st msg eid =
     \<lparr> status = st, success = False, message = msg, data = NoData,
       errorId = Some eid, retryAfter = None \<rparr>"

definition ok :: "nat \<Rightarrow> string \<Rightarrow> resp_data \<Rightarrow> response" where
  "ok st msg d =
     \<lparr> status = st, success = True, message = msg, data = d,
       errorId = None, retryAfter = None \<rparr>"

text \<open>
  \<^verbatim>\<open>login\<close>. The result is the response, the refresh cookie when one is set, and the
  store after the handler. \<open>toLowerCase\<close> is the runtime's string lowering, \<open>cmp\<close> the
  credential hasher's comparison.
\<close>

definition login ::
  "(string \<Rightarrow> string) \<Rightarrow> (string \<Rightarrow> string \<Rightarrow> bool) \<Rightarrow> env \<Rightarrow> int \<Rightarrow> IUser list \<Rightarrow> string \<Rightarrow> string
     \<Rightarrow> response \<times> cookie option \<times> IUser list" where
  "login toLowerCase cmp e now store em pw =
     (if em = [] \<or> pw = [] then (failure 400 ''Email and password are required.'', None, store)
      else
        (case findOne (\<lambda>d. email d = toLowerCase em) store of
           None \<Rightarrow> (failure 401 ''Invalid email or password.'', None, store)
         | Some user \<Rightarrow>
             if \<not> isActive user
               then (failure 401 ''Account has been deactivated. Please contact support.'', None, store)
             else if \<not> comparePassword cmp user pw
               then (failure 401 ''Invalid email or password.'', None, store)
             else
               (let user' = user\<lparr>lastLogin := Some now\<rparr>;
                    store' = save user' store;
                    accessToken = generateAccessToken e now user';
                    refreshToken = generateRefreshToken e now (u_id user')
                in (ok 200 ''Login successful.''
                      (LoginData
                         \<lparr> lu_id = u_id user', lu_email = email user',
                           lu_firstName = firstName user', lu_lastName = lastName user',
                           lu_avatar = avatar user', lu_isEmailVerified = isEmailVerified user',
                           lu_role = role user', lu_preferences = preferences user',
                           lu_lastLogin = lastLogin user' \<rparr>
                         accessToken),
                    Some \<lparr> cookie_name = ''refreshToken'', cookie_value = refreshToken,
                           httpOnly = True, secure = (env_NODE_ENV e = Some ''production''),
                           sameSite = ''strict'', maxAge = 30 * 24 * 60 * 60 * 1000 \<rparr>,
                    store'))))"

text \<open>
  \<^verbatim>\<open>verifyEmail\<close>. The welcome email after the save is best effort and changes neither
  the response nor the store.
\<close>

definition verifyEmail ::
  "(string \<Rightarrow> string) \<Rightarrow> int \<Rightarrow> IUser list \<Rightarrow> query_value \<Rightarrow> response \<times> IUser list" where
  "verifyEmail sha256 now store q =
     (case q of
        QString token \<Rightarrow>
          if token = [] then (failure 400 ''Invalid verification token.'', store)
          else
            (let hashedToken = sha256 token in
             case findOne (\<lambda>d. emailVerificationToken d = Some hashedToken
                                \<and> date_gt (emailVerificationExpires d) now) store of
               None \<Rightarrow> (failure 400 ''Invalid or expired verification token.'', store)
             | Some user \<Rightarrow>
                 (let user' = user\<lparr> isEmailVerified := True,
                                     emailVerificationToken := None,
                                     emailVerificationExpires := None \<rparr>
                  in (ok 200 ''Email verified successfully.''
                        (UserSummary (u_id user') (email user') (firstName user')
                           (lastName user') (isEmailVerified user')),
                      save user' store)))
      | _ \<Rightarrow> (failure 400 ''Invalid verification token.'', store))"

text \<open>
  \<^verbatim>\<open>resendVerification\<close>. \<open>rnd\<close> is the random value of the new token, \<open>sendOk\<close> tells
  whether the notifier delivered, \<open>uuid\<close> is the correlation id of a failure.
\<close>

definition resendVerification ::
  "(string \<Rightarrow> string) \<Rightarrow> (string \<Rightarrow> string) \<Rightarrow> string \<Rightarrow> bool \<Rightarrow> string \<Rightarrow> int \<Rightarrow> IUser list \<Rightarrow> string
     \<Rightarrow> response \<times> IUser list" where
  "resendVerification toLowerCase sha256 rnd sendOk uuid now store em =
     (if em = [] then (failure 400 ''Email is required.'', store)
      else
        (case findOne (\<lambda>d. email d = toLowerCase em) store of
           None \<Rightarrow> (failure 404 ''User not found.'', store)
         | Some user \<Rightarrow>
             if isEmailVerified user then (failure 400 ''Email is already verified.'', store)
             else
               (let (verificationToken, user') = generateEmailVerificationToken sha256 rnd now user;
                    store' = save user' store
                in if sendOk
                   then (ok 200 ''Verification email sent successfully.'' NoData, store')
                   else (failure_with_id 500 ''Failed to send verification email.'' uuid, store'))))"

definition forgotPassword ::
  "(string \<Rightarrow> string) \<Rightarrow> (string \<Rightarrow> string) \<Rightarrow> string \<Rightarrow> bool \<Rightarrow> string \<Rightarrow> int \<Rightarrow> IUser list \<Rightarrow> string
     \<Rightarrow> response \<times> IUser list" where
  "forgotPassword toLowerCase sha256 rnd sendOk uuid now store em =
     (if em = [] then (failure 400 ''Email is required.'', store)
      else
        (case findOne (\<lambda>d. email d = toLowerCase em) store of
           None \<Rightarrow>
             (ok 200 ''If an account with this email exists, a password reset link has been sent.'' NoData,
              store)
         | Some user \<Rightarrow>
             (let (resetToken, user') = generatePasswordResetToken sha256 rnd now user;
                  store' = save user' store
              in if sendOk
                 then (ok 200 ''If an account with this email exists, a password reset link has been sent.'' NoData,
                       store')
                 else (failure_with_id 500 ''Failed to send password reset email.'' uuid, store'))))"

text \<open>
  \<^verbatim>\<open>resetPassword\<close>. The save stores the new password hashed: the hashing on save
  belongs to the user model, which is not among the sources, and the hasher \<open>hashPassword\<close>
  is a parameter.
\<close>

definition resetPassword ::
  "(string \<Rightarrow> string) \<Rightarrow> (string \<Rightarrow> string) \<Rightarrow> int \<Rightarrow> IUser list \<Rightarrow> string \<Rightarrow> string
     \<Rightarrow> response \<times> IUser list" where
  "resetPassword sha256 hashPassword now store token newPassword =
     (if token = [] \<or> newPassword = [] then (failure 400 ''Token and new password are required.'', store)
      else if length newPassword < 8
        then (failure 400 ''Password must be at least 8 characters long.'', store)
      else
        (let hashedToken = sha256 token in
         case findOne (\<lambda>d. passwordResetToken d = Some hashedToken
                            \<and> date_gt (passwordResetExpires d) now) store of
           None \<Rightarrow> (failure 400 ''Invalid or expired reset token.'', store)
         | Some user \<Rightarrow>
             (let user' = user\<lparr> password := Some (hashPassword newPassword),
                                 passwordResetToken := None,
                                 passwordResetExpires := None \<rparr>
              in (ok 200 ''Password has been reset successfully.'' NoData, save user' store))))"

definition getProfile :: "IUser \<Rightarrow> response" where
  "getProfile user = ok 200 ''Profile retrieved successfully.'' (ProfileData user)"

section \<open>Middleware (middleware/auth.ts)\<close>

text \<open>\<^verbatim>\<open>authenticate\<close>: on success the identity is attached to the request and \<^verbatim>\<open>next()\<close> runs.\<close>

definition authenticate ::
  "env \<Rightarrow> (string \<Rightarrow> jwt option) \<Rightarrow> int \<Rightarrow> IUser list \<Rightarrow> string option \<Rightarrow> IUser middleware_result" where
  "authenticate e decode now store authorization =
     (case extractTokenFromHeader authorization of
        None \<Rightarrow> Responded (failure 401 ''Access denied. No token provided.'')
      | Some token \<Rightarrow>
          if token = [] then Responded (failure 401 ''Access denied. No token provided.'')
          else
            (case verifyAccessToken e decode now token of
               Inl err \<Rightarrow> Responded (failure 401 ''Invalid or expired token.'')
             | Inr decoded \<Rightarrow>
                 (case findById_without_password (jwt_userId decoded) store of
                    None \<Rightarrow> Responded (failure 401 ''User not found.'')
                  | Some user \<Rightarrow>
                      if \<not> isActive user then Responded (failure 401 ''Account has been deactivated.'')
                      else Next user)))"

text \<open>The route \<^verbatim>\<open>router.get('/profile', authenticate, getProfile)\<close>.\<close>

definition profile_route ::
  "env \<Rightarrow> (string \<Rightarrow> jwt option) \<Rightarrow> int \<Rightarrow> IUser list \<Rightarrow> string option \<Rightarrow> response" where
  "profile_route e decode now store authorization =
     (case authenticate e decode now store authorization of
        Responded r \<Rightarrow> r
      | Next user \<Rightarrow> getProfile user)"

text \<open>
  \<^verbatim>\<open>createRateLimiter(maxRequests, windowMs)\<close>: the returned middleware with its map of
  clients passed in and out. \<^verbatim>\<open>Math.ceil((resetTime - now) / 1000)\<close> on integers is
  written with integer division.
\<close>

definition ceil_div :: "int \<Rightarrow> int \<Rightarrow> int" where
  "ceil_div a b = - ((- a) div b)"

definition createRateLimiter ::
  "int \<Rightarrow> int \<Rightarrow> clients \<Rightarrow> string option \<Rightarrow> int \<Rightarrow> unit middleware_result \<times> clients" where
  "createRateLimiter maxRequests windowMs cs ip now =
     (let clientId = (case ip of None \<Rightarrow> ''unknown'' | Some a \<Rightarrow> if a = [] then ''unknown'' else a)
      in case cs clientId of
           None \<Rightarrow> (Next (), cs(clientId \<mapsto> \<lparr> count = 1, resetTime = now + windowMs \<rparr>))
         | Some c \<Rightarrow>
             if now > resetTime c
               then (Next (), cs(clientId \<mapsto> c\<lparr> count := 1, resetTime := now + windowMs \<rparr>))
             else if count c \<ge> maxRequests
               then (Responded
                       \<lparr> status = 429, success = False,
                         message = ''Too many requests. Please try again later.'',
                         data = NoData, errorId = None,
                         retryAfter = Some (ceil_div (resetTime c - now) 1000) \<rparr>,
                     cs)
             else (Next (), cs(clientId \<mapsto> c\<lparr> count := count c + 1 \<rparr>)))"

text \<open>The limiter of the authentication routes: \<^verbatim>\<open>createRateLimiter(5, 15 * 60 * 1000)\<close>.\<close>

definition authRateLimit :: "clients \<Rightarrow> string option \<Rightarrow> int \<Rightarrow> unit middleware_result \<times> clients" where
  "authRateLimit = createRateLimiter 5 (15 * 60 * 1000)"

text \<open>A sequence of requests of one client at the given times, through one limiter.\<close>

fun requests ::
  "(clients \<Rightarrow> string option \<Rightarrow> int \<Rightarrow> unit middleware_result \<times> clients)
     \<Rightarrow> clients \<Rightarrow> string option \<Rightarrow> int list \<Rightarrow> unit middleware_result list \<times> clients" where
  "requests limiter cs ip [] = ([], cs)"
| "requests limiter cs ip (t # ts) =
     (let (r, cs') = limiter cs ip t;
          (rs, cs'') = requests limiter cs' ip ts
      in (r # rs, cs''))"

section \<open>Vocabulary of the properties\<close>

text \<open>
  An identity holds a live token of a kind for a presented plaintext when its stored hash
  for the kind is the hash of the plaintext and its stored expiry is strictly later than
  the current time.
\<close>

abbreviation verification_live :: "(string \<Rightarrow> string) \<Rightarrow> int \<Rightarrow> string \<Rightarrow> IUser \<Rightarrow> bool" where
  "verification_live sha256 now token d \<equiv>
     emailVerificationToken d = Some (sha256 token)
     \<and> (\<exists>e. emailVerificationExpires d = Some e \<and> now < e)"

abbreviation reset_live :: "(string \<Rightarrow> string) \<Rightarrow> int \<Rightarrow> string \<Rightarrow> IUser \<Rightarrow> bool" where
  "reset_live sha256 now token d \<equiv>
     passwordResetToken d = Some (sha256 token)
     \<and> (\<exists>e. passwordResetExpires d = Some e \<and> now < e)"

abbreviation client_key :: "string option \<Rightarrow> string" where
  "client_key ip \<equiv> (case ip of None \<Rightarrow> ''unknown'' | Some a \<Rightarrow> if a = [] then ''unknown'' else a)"

abbreviation too_many_requests :: "int \<Rightarrow> response" where
  "too_many_requests secs \<equiv>
     \<lparr> status = 429, success = False, message = ''Too many requests. Please try again later.'',
       data = NoData, errorId = None, retryAfter = Some secs \<rparr>"

section \<open>Example data\<close>

text \<open>
  A toy injective hash, a lowering of the ASCII letters and two identities with ASCII
  emails, for the concrete instances below.
\<close>

definition example_hash :: "string \<Rightarrow> string" where
  "example_hash s = ''h:'' @ s"

definition example_preferences :: preferences where
  "example_preferences =
     \<lparr> notifications = \<lparr> notify_email = True, notify_push = True,
                           notify_mentions = True, notify_assignments = True \<rparr>,
       theme = System, language = ''en'' \<rparr>"

definition alice :: IUser where
  "alice =
     \<lparr> u_id = ''u1'', email = ''alice@x.com'', password = Some ''pw:alice-secret'',
       firstName = ''Alice'', lastName = ''A'', avatar = None,
       isEmailVerified = False,
       emailVerificationToken = Some (example_hash ''tok-a''),
       emailVerificationExpires = Some 2000,
       passwordResetToken = Some (example_hash ''rst-a''),
       passwordResetExpires = Some 2000,
       lastLogin = None, isActive = True, role = RoleUser,
       preferences = example_preferences, createdAt = 0, updatedAt = 0 \<rparr>"

definition bob :: IUser where
  "bob =
     \<lparr> u_id = ''u2'', email = ''bob@x.com'', password = Some ''pw:bob-secret'',
       firstName = ''Bob'', lastName = ''B'', avatar = None,
       isEmailVerified = True,
       emailVerificationToken = None, emailVerificationExpires = None,
       passwordResetToken = None, passwordResetExpires = None,
       lastLogin = None, isActive = False, role = RoleUser,
       preferences = example_preferences, createdAt = 0, updatedAt = 0 \<rparr>"

definition example_env :: env where
  "example_env = \<lparr> env_JWT_SECRET = None, env_JWT_REFRESH_SECRET = None, env_NODE_ENV = None \<rparr>"

definition example_decode :: "string \<Rightarrow> jwt option" where
  "example_decode s =
     (if s = ''access-alice'' then Some (generateAccessToken example_env 0 alice)
      else if s = ''access-bob'' then Some (generateAccessToken example_env 0 bob)
      else if s = ''access-ghost'' then Some (generateAccessToken example_env 0 (alice\<lparr>u_id := ''u9''\<rparr>))
      else if s = ''refresh-alice'' then Some (generateRefreshToken example_env 0 ''u1'')
      else if s = ''foreign-alice''
        then Some ((generateAccessToken example_env 0 alice)\<lparr>jwt_iss := Some ''other-api''\<rparr>)
      else None)"

definition example_lower_char :: "char \<Rightarrow> char" where
  "example_lower_char c =
     (if (65::nat) \<le> of_char c \<and> of_char c \<le> (90::nat) then char_of (of_char c + (32::nat)) else c)"

definition example_toLowerCase :: "string \<Rightarrow> string" where
  "example_toLowerCase s = map example_lower_char s"

definition example_cmp :: "string \<Rightarrow> string \<Rightarrow> bool" where
  "example_cmp candidate h = (h = ''pw:'' @ candidate)"

section \<open>Properties\<close>

subsection \<open>Auxiliary lemmas\<close>

lemma date_gt_iff: "date_gt d now = (\<exists>e. d = Some e \<and> now < e)"
  by (cases d) (simp_all add: date_gt_def)

lemma findOne_None_iff: "(findOne flt store = None) = (\<forall>d\<in>set store. \<not> flt d)"
  by (auto simp: findOne_def find_None_iff)

lemma findOne_SomeD: "findOne flt store = Some u \<Longrightarrow> u \<in> set store \<and> flt u"
  by (auto simp: findOne_def find_Some_iff)

lemma verifyEmail_rejects:
  assumes "token \<noteq> []" and "\<forall>d\<in>set store. \<not> verification_live sha256 now token d"
  shows "verifyEmail sha256 now store (QString token)
           = (failure 400 ''Invalid or expired verification token.'', store)"
proof -
  have "findOne (\<lambda>d. emailVerificationToken d = Some (sha256 token)
                      \<and> date_gt (emailVerificationExpires d) now) store = None"
    using assms(2) by (simp add: findOne_None_iff date_gt_iff)
  with assms(1) show ?thesis by (simp add: verifyEmail_def)
qed

lemma verifyEmail_200_iff:
  "(status (fst (verifyEmail sha256 now store q)) = 200)
     = (\<exists>token. q = QString token \<and> token \<noteq> [] \<and> (\<exists>d\<in>set store. verification_live sha256 now token d))"
proof (cases q)
  case (QString token)
  show ?thesis
  proof (cases "findOne (\<lambda>d. emailVerificationToken d = Some (sha256 token)
                      \<and> date_gt (emailVerificationExpires d) now) store")
    case None
    then have "\<forall>d\<in>set store. \<not> verification_live sha256 now token d"
      by (simp add: findOne_None_iff date_gt_iff)
    with None QString show ?thesis
      by (auto simp: verifyEmail_def failure_def)
  next
    case (Some u)
    from findOne_SomeD[OF Some] have "u \<in> set store" "verification_live sha256 now token u"
      by (simp_all add: date_gt_iff)
    with Some QString show ?thesis
      by (auto simp: verifyEmail_def failure_def ok_def Let_def)
  qed
qed (simp_all add: verifyEmail_def failure_def)

lemma resetPassword_rejects:
  assumes "token \<noteq> []" and "8 \<le> length pw" and "\<forall>d\<in>set store. \<not> reset_live sha256 now token d"
  shows "resetPassword sha256 hp now store token pw
           = (failure 400 ''Invalid or expired reset token.'', store)"
proof -
  have "findOne (\<lambda>d. passwordResetToken d = Some (sha256 token)
                      \<and> date_gt (passwordResetExpires d) now) store = None"
    using assms(3) by (simp add: findOne_None_iff date_gt_iff)
  moreover from assms(2) have "pw \<noteq> []" by auto
  ultimately show ?thesis using assms(1,2) by (simp add: resetPassword_def)
qed

lemma resetPassword_200_iff:
  "(status (fst (resetPassword sha256 hp now store token pw)) = 200)
     = (token \<noteq> [] \<and> 8 \<le> length pw \<and> (\<exists>d\<in>set store. reset_live sha256 now token d))"
proof (cases "token = [] \<or> length pw < 8")
  case True
  then show ?thesis by (auto simp: resetPassword_def failure_def)
next
  case False
  then have ok: "token \<noteq> []" "pw \<noteq> []" "\<not> length pw < 8" by auto
  show ?thesis
  proof (cases "findOne (\<lambda>d. passwordResetToken d = Some (sha256 token)
                      \<and> date_gt (passwordResetExpires d) now) store")
    case None
    then have "\<forall>d\<in>set store. \<not> reset_live sha256 now token d"
      by (simp add: findOne_None_iff date_gt_iff)
    with None ok show ?thesis
      by (auto simp: resetPassword_def failure_def)
  next
    case (Some u)
    from findOne_SomeD[OF Some] have "u \<in> set store" "reset_live sha256 now token u"
      by (simp_all add: date_gt_iff)
    with Some ok show ?thesis
      by (auto simp: resetPassword_def failure_def ok_def Let_def)
  qed
qed


lemma filter_le1_unique:
  assumes "length (filter P xs) \<le> 1" "x \<in> set xs" "y \<in> set xs" "P x" "P y"
  shows "x = y"
proof -
  have mem: "x \<in> set (filter P xs)" "y \<in> set (filter P xs)" using assms by simp_all
  from assms(1) have "filter P xs = [] \<or> (\<exists>z. filter P xs = [z])"
    by (cases "filter P xs") (auto simp: length_Suc_conv)
  then show ?thesis
  proof
    assume "filter P xs = []"
    with mem(1) show ?thesis by (simp del: set_filter)
  next
    assume "\<exists>z. filter P xs = [z]"
    then obtain z where "filter P xs = [z]" ..
    with mem show ?thesis by (simp del: set_filter)
  qed
qed

lemma set_saveD: "d \<in> set (save user store) \<Longrightarrow> d = user \<or> (d \<in> set store \<and> u_id d \<noteq> u_id user)"
  by (auto simp: save_def split: if_splits)

lemma verifyEmail_success:
  assumes "status (fst (verifyEmail sha256 now store q)) = 200"
  shows "\<exists>token user. q = QString token \<and> token \<noteq> [] \<and> user \<in> set store
            \<and> verification_live sha256 now token user
            \<and> verifyEmail sha256 now store q =
                (ok 200 ''Email verified successfully.''
                   (UserSummary (u_id user) (email user) (firstName user) (lastName user) True),
                 save (user\<lparr> isEmailVerified := True, emailVerificationToken := None,
                              emailVerificationExpires := None \<rparr>) store)"
proof (cases q)
  case (QString token)
  show ?thesis
  proof (cases "findOne (\<lambda>d. emailVerificationToken d = Some (sha256 token)
                      \<and> date_gt (emailVerificationExpires d) now) store")
    case None
    with QString assms show ?thesis
      by (auto simp: verifyEmail_def failure_def split: if_splits)
  next
    case (Some u)
    from findOne_SomeD[OF Some] have "u \<in> set store" "verification_live sha256 now token u"
      by (simp_all add: date_gt_iff)
    with Some QString assms show ?thesis
      by (auto simp: verifyEmail_def failure_def Let_def split: if_splits)
  qed
qed (use assms in \<open>simp_all add: verifyEmail_def failure_def\<close>)

lemma resetPassword_success:
  assumes "status (fst (resetPassword sha256 hp now store token pw)) = 200"
  shows "\<exists>user. token \<noteq> [] \<and> 8 \<le> length pw \<and> user \<in> set store
            \<and> reset_live sha256 now token user
            \<and> resetPassword sha256 hp now store token pw =
                (ok 200 ''Password has been reset successfully.'' NoData,
                 save (user\<lparr> password := Some (hp pw), passwordResetToken := None,
                              passwordResetExpires := None \<rparr>) store)"
proof (cases "token = [] \<or> length pw < 8")
  case True
  with assms show ?thesis by (auto simp: resetPassword_def failure_def split: if_splits)
next
  case False
  then have ok: "token \<noteq> []" "pw \<noteq> []" "\<not> length pw < 8" by auto
  show ?thesis
  proof (cases "findOne (\<lambda>d. passwordResetToken d = Some (sha256 token)
                      \<and> date_gt (passwordResetExpires d) now) store")
    case None
    with ok assms show ?thesis
      by (auto simp: resetPassword_def failure_def)
  next
    case (Some u)
    from findOne_SomeD[OF Some] have "u \<in> set store" "reset_live sha256 now token u"
      by (simp_all add: date_gt_iff)
    with Some ok show ?thesis
      by (auto simp: resetPassword_def Let_def)
  qed
qed

lemma verification_hash_gone:
  assumes uniq: "length (filter (\<lambda>d. emailVerificationToken d = Some h) store) \<le> 1"
      and u: "user \<in> set store" "emailVerificationToken user = Some h"
      and c: "emailVerificationToken user' \<noteq> Some h" "u_id user' = u_id user"
  shows "\<forall>d\<in>set (save user' store). emailVerificationToken d \<noteq> Some h"
proof
  fix d assume "d \<in> set (save user' store)"
  then consider "d = user'" | "d \<in> set store" "u_id d \<noteq> u_id user'"
    using set_saveD by blast
  then show "emailVerificationToken d \<noteq> Some h"
  proof cases
    case 1
    with c show ?thesis by simp
  next
    case 2
    show ?thesis
    proof
      assume "emailVerificationToken d = Some h"
      with uniq u 2(1) have "d = user"
        using filter_le1_unique[of "\<lambda>d. emailVerificationToken d = Some h" store d user] by simp
      with 2(2) c(2) show False by simp
    qed
  qed
qed

lemma reset_hash_gone:
  assumes uniq: "length (filter (\<lambda>d. passwordResetToken d = Some h) store) \<le> 1"
      and u: "user \<in> set store" "passwordResetToken user = Some h"
      and c: "passwordResetToken user' \<noteq> Some h" "u_id user' = u_id user"
  shows "\<forall>d\<in>set (save user' store). passwordResetToken d \<noteq> Some h"
proof
  fix d assume "d \<in> set (save user' store)"
  then consider "d = user'" | "d \<in> set store" "u_id d \<noteq> u_id user'"
    using set_saveD by blast
  then show "passwordResetToken d \<noteq> Some h"
  proof cases
    case 1
    with c show ?thesis by simp
  next
    case 2
    show ?thesis
    proof
      assume "passwordResetToken d = Some h"
      with uniq u 2(1) have "d = user"
        using filter_le1_unique[of "\<lambda>d. passwordResetToken d = Some h" store d user] by simp
      with 2(2) c(2) show False by simp
    qed
  qed
qed


lemma alice_simps:
  "emailVerificationToken alice = Some ''h:tok-a''"
  "emailVerificationExpires alice = Some 2000"
  "passwordResetToken alice = Some ''h:rst-a''"
  "passwordResetExpires alice = Some 2000"
  "u_id alice = ''u1''" "email alice = ''alice@x.com''" "isActive alice"
  "\<not> isEmailVerified alice" "password alice = Some ''pw:alice-secret''"
  by (simp_all add: alice_def example_hash_def)

lemma bob_simps:
  "emailVerificationToken bob = None"
  "emailVerificationExpires bob = None"
  "passwordResetToken bob = None"
  "passwordResetExpires bob = None"
  "u_id bob = ''u2''" "email bob = ''bob@x.com''" "\<not> isActive bob"
  "isEmailVerified bob" "password bob = Some ''pw:bob-secret''"
  by (simp_all add: bob_def)

lemma resetPassword_failed:
  assumes "status (fst (resetPassword sha256 hp now store token pw)) \<noteq> 200"
  shows "status (fst (resetPassword sha256 hp now store token pw)) = 400
         \<and> snd (resetPassword sha256 hp now store token pw) = store"
proof (cases "findOne (\<lambda>d. passwordResetToken d = Some (sha256 token)
                      \<and> date_gt (passwordResetExpires d) now) store")
  case None
  then show ?thesis by (simp add: resetPassword_def failure_def)
next
  case (Some u)
  with assms show ?thesis
    by (simp add: resetPassword_def failure_def ok_def Let_def split: if_splits)
qed

lemma jwt_verify_Inr_iff:
  "(jwt_verify decode token key iss aud now = Inr t)
     = (decode token = Some t \<and> jwt_key t = key
        \<and> (\<forall>x. jwt_exp t = Some x \<longrightarrow> now div 1000 < x)
        \<and> aud \<in> set (jwt_aud t) \<and> jwt_iss t = Some iss)"
  by (auto simp: jwt_verify_def split: option.splits)

lemma verifyAccessToken_Inr_iff:
  "(verifyAccessToken e decode now token = Inr t)
     = (jwt_verify decode token (JWT_SECRET e) ''taskflow-api'' ''taskflow-app'' now = Inr t)"
  by (auto simp: verifyAccessToken_def split: sum.splits)

lemma verifyRefreshToken_Inr_iff:
  "(verifyRefreshToken e decode now token = Inr t)
     = (jwt_verify decode token (JWT_REFRESH_SECRET e) ''taskflow-api'' ''taskflow-app'' now = Inr t)"
  by (auto simp: verifyRefreshToken_def split: sum.splits)

lemma rejected_iff_not_Inr: "(\<exists>msg. r = Inl msg) = (\<forall>t. r \<noteq> Inr t)"
  by (cases r) auto

lemma example_secret: "JWT_SECRET example_env = ''your-super-secret-jwt-key-change-this-in-production''"
  by (simp add: JWT_SECRET_def example_env_def)

lemma example_refresh_secret:
  "JWT_REFRESH_SECRET example_env = ''your-super-secret-refresh-key-change-this-in-production''"
  by (simp add: JWT_REFRESH_SECRET_def example_env_def)

lemma example_verify:
  "verifyAccessToken example_env example_decode 5000 ''junk'' = Inl ''Invalid or expired access token: jwt malformed''"
  "verifyAccessToken example_env example_decode 5000 ''access-alice'' = Inr (generateAccessToken example_env 0 alice)"
  "verifyAccessToken example_env example_decode 5000 ''access-bob'' = Inr (generateAccessToken example_env 0 bob)"
  "verifyAccessToken example_env example_decode 5000 ''access-ghost''
     = Inr (generateAccessToken example_env 0 (alice\<lparr>u_id := ''u9''\<rparr>))"
  by (simp_all add: verifyAccessToken_def jwt_verify_def example_decode_def generateAccessToken_def
        jwt_sign_def jwt_error_message_def)

lemma find_by_id_strip:
  "map_option (\<lambda>d. d\<lparr>password := None\<rparr>) (find (\<lambda>d. u_id d = i) xs)
     = find (\<lambda>d. u_id d = i) (map (\<lambda>d. d\<lparr>password := None\<rparr>) xs)"
  by (induction xs) simp_all

lemma findById_without_password_cong:
  assumes "map (\<lambda>d. d\<lparr>password := None\<rparr>) store1 = map (\<lambda>d. d\<lparr>password := None\<rparr>) store2"
  shows "findById_without_password i store1 = findById_without_password i store2"
  using assms by (simp add: findById_without_password_def find_by_id_strip)

lemma findById_without_password_None:
  "findById_without_password i store = Some user \<Longrightarrow> password user = None"
  by (auto simp: findById_without_password_def)

lemma authenticate_Next_password:
  "authenticate e decode now store hdr = Next user \<Longrightarrow> password user = None"
  by (auto simp: authenticate_def dest: findById_without_password_None
        split: option.splits if_splits sum.splits)

lemma authenticate_cong:
  assumes "map (\<lambda>d. d\<lparr>password := None\<rparr>) store1 = map (\<lambda>d. d\<lparr>password := None\<rparr>) store2"
  shows "authenticate e decode now store1 hdr = authenticate e decode now store2 hdr"
  by (auto simp: authenticate_def findById_without_password_cong[OF assms]
        split: option.splits sum.splits)

lemma example_authenticated:
  "authenticate example_env example_decode 5000 [bob, alice] (Some ''Bearer access-alice'')
     = Next (alice\<lparr>password := None\<rparr>)"
  "authenticate example_env example_decode 5000 [bob, alice\<lparr>password := Some ''another-hash''\<rparr>]
       (Some ''Bearer access-alice'')
     = Next (alice\<lparr>password := None\<rparr>)"
  by (simp_all add: authenticate_def extractTokenFromHeader_def example_verify
        findById_without_password_def generateAccessToken_def jwt_sign_def alice_simps bob_simps)

lemma example_lower:
  "example_toLowerCase ''Alice@X.com'' = ''alice@x.com''"
  "example_toLowerCase ''bob@x.com'' = ''bob@x.com''"
  "example_toLowerCase ''nobody@x.com'' = ''nobody@x.com''"
  by code_simp+

lemma login_unknown:
  assumes "em \<noteq> []" "pw \<noteq> []" "\<forall>d\<in>set store. email d \<noteq> toLowerCase em"
  shows "login toLowerCase cmp e now store em pw = (failure 401 ''Invalid email or password.'', None, store)"
proof -
  have "findOne (\<lambda>d. email d = toLowerCase em) store = None"
    using assms(3) by (simp add: findOne_None_iff)
  with assms(1,2) show ?thesis by (simp add: login_def)
qed

lemma login_wrong_password:
  assumes "em \<noteq> []" "pw \<noteq> []" "findOne (\<lambda>d. email d = toLowerCase em) store = Some user"
    and "isActive user" "\<not> comparePassword cmp user pw"
  shows "login toLowerCase cmp e now store em pw = (failure 401 ''Invalid email or password.'', None, store)"
  using assms by (simp add: login_def)

lemma login_deactivated:
  assumes "em \<noteq> []" "pw \<noteq> []" "findOne (\<lambda>d. email d = toLowerCase em) store = Some user"
    and "\<not> isActive user"
  shows "login toLowerCase cmp e now store em pw
           = (failure 401 ''Account has been deactivated. Please contact support.'', None, store)"
  using assms by (simp add: login_def)

lemma forgotPassword_unknown:
  assumes "em \<noteq> []" "\<forall>d\<in>set store. email d \<noteq> toLowerCase em"
  shows "forgotPassword toLowerCase sha256 rnd sendOk uuid now store em
           = (ok 200 ''If an account with this email exists, a password reset link has been sent.'' NoData,
              store)"
proof -
  have "findOne (\<lambda>d. email d = toLowerCase em) store = None"
    using assms(2) by (simp add: findOne_None_iff)
  with assms(1) show ?thesis by (simp add: forgotPassword_def)
qed

lemma ceil_div_1000:
  "1000 * (ceil_div a 1000 - 1) < a \<and> a \<le> 1000 * ceil_div a 1000"
proof -
  define q where "q = (- a) div 1000"
  have "- a = 1000 * q + (- a) mod 1000" by (simp add: q_def)
  moreover have "0 \<le> (- a) mod 1000" "(- a) mod 1000 < 1000" by simp_all
  ultimately have "1000 * q \<le> - a" "- a < 1000 * q + 1000" by linarith+
  moreover have "ceil_div a 1000 = - q" by (simp add: ceil_div_def q_def)
  ultimately show ?thesis by simp
qed

lemma ceil_bounds_pos:
  fixes a c :: int
  assumes "1000 * (c - 1) < a" "a \<le> 1000 * c"
  shows "(0 < c) = (0 < a)"
proof -
  from assms(1) have "1000 * c - 1000 < a" by (simp add: algebra_simps)
  with assms(2) show ?thesis by linarith
qed

lemma ceil_div_pos_iff: "(0 < ceil_div a 1000) = (0 < a)"
  using ceil_div_1000[of a] by (intro ceil_bounds_pos) simp_all

lemma limiter_no_window:
  assumes "cs (client_key ip) = None"
  shows "createRateLimiter m w cs ip t
           = (Next (), cs(client_key ip \<mapsto> \<lparr> count = 1, resetTime = t + w \<rparr>))"
  using assms by (simp add: createRateLimiter_def)

lemma limiter_elapsed:
  assumes "cs (client_key ip) = Some c" "resetTime c < t"
  shows "createRateLimiter m w cs ip t
           = (Next (), cs(client_key ip \<mapsto> \<lparr> count = 1, resetTime = t + w \<rparr>))"
  using assms by (cases c) (simp add: createRateLimiter_def)

lemma limiter_below_limit:
  assumes "cs (client_key ip) = Some c" "t \<le> resetTime c" "count c < m"
  shows "createRateLimiter m w cs ip t
           = (Next (), cs(client_key ip \<mapsto> \<lparr> count = count c + 1, resetTime = resetTime c \<rparr>))"
  using assms by (cases c) (simp add: createRateLimiter_def)

lemma limiter_at_limit:
  assumes "cs (client_key ip) = Some c" "t \<le> resetTime c" "m \<le> count c"
  shows "createRateLimiter m w cs ip t
           = (Responded (too_many_requests (ceil_div (resetTime c - t) 1000)), cs)"
  using assms by (simp add: createRateLimiter_def)

lemma limiter_other_client:
  assumes "k \<noteq> client_key ip"
  shows "snd (createRateLimiter m w cs ip t) k = cs k"
  using assms by (auto simp: createRateLimiter_def Let_def split: option.splits)


lemma save_member:
  assumes "user \<in> set store" "u_id user' = u_id user"
  shows "user' \<in> set (save user' store)"
proof -
  have "(\<lambda>d. if u_id d = u_id user' then user' else d) user \<in> set (save user' store)"
    unfolding save_def using assms(1) by (intro imageI[of user "set store", folded set_map])
  with assms(2) show ?thesis by simp
qed

lemma resendVerification_store:
  assumes "em \<noteq> []" "findOne (\<lambda>d. email d = toLowerCase em) store = Some user"
      and "\<not> isEmailVerified user"
  shows "snd (resendVerification toLowerCase sha256 rnd sendOk uuid now store em)
           = save (user\<lparr> emailVerificationToken := Some (sha256 rnd),
                         emailVerificationExpires := Some (now + 86400000) \<rparr>) store"
  using assms by (simp add: resendVerification_def generateEmailVerificationToken_def Let_def)

lemma forgotPassword_store:
  assumes "em \<noteq> []" "findOne (\<lambda>d. email d = toLowerCase em) store = Some user"
  shows "snd (forgotPassword toLowerCase sha256 rnd sendOk uuid now store em)
           = save (user\<lparr> passwordResetToken := Some (sha256 rnd),
                         passwordResetExpires := Some (now + 600000) \<rparr>) store"
  using assms by (simp add: forgotPassword_def generatePasswordResetToken_def Let_def)


subsection \<open>Single-use tokens\<close>

text \<open>
  C1. A presented single-use token (a non-empty string; for a reset, with a new password
  of at least 8 characters) is accepted exactly when some identity holds a live token of
  the kind for it: the stored hash equals the hash of the presented plaintext and the
  stored expiry is strictly later than the current time. Otherwise, whether the value is
  wrong, no hash is stored or the token has expired, the response is one and the same
  generic 400 rejection and the store is unchanged.
\<close>

theorem single_use_token_generic_rejection:
  "(status (fst (verifyEmail sha256 now store q)) = 200)
      = (\<exists>t. q = QString t \<and> t \<noteq> [] \<and> (\<exists>d\<in>set store. verification_live sha256 now t d))
   \<and> (token \<noteq> [] \<and> (\<forall>d\<in>set store. \<not> verification_live sha256 now token d)
        \<longrightarrow> verifyEmail sha256 now store (QString token)
              = (\<lparr> status = 400, success = False,
                    message = ''Invalid or expired verification token.'',
                    data = NoData, errorId = None, retryAfter = None \<rparr>, store))
   \<and> (status (fst (resetPassword sha256 hashPassword now store token newPassword)) = 200)
      = (token \<noteq> [] \<and> 8 \<le> length newPassword
           \<and> (\<exists>d\<in>set store. reset_live sha256 now token d))
   \<and> (token \<noteq> [] \<and> 8 \<le> length newPassword
        \<and> (\<forall>d\<in>set store. \<not> reset_live sha256 now token d)
        \<longrightarrow> resetPassword sha256 hashPassword now store token newPassword
              = (\<lparr> status = 400, success = False,
                    message = ''Invalid or expired reset token.'',
                    data = NoData, errorId = None, retryAfter = None \<rparr>, store))"
  using verifyEmail_200_iff [of sha256 now store q]
        verifyEmail_rejects [of token store sha256 now]
        resetPassword_200_iff [of sha256 hashPassword now store token newPassword]
        resetPassword_rejects [of token newPassword store sha256 now hashPassword]
  unfolding failure_def by blast

theorem single_use_token_generic_rejection_witness:
  "verifyEmail example_hash 3000 [bob, alice] (QString ''tok-a'')
     = (\<lparr> status = 400, success = False, message = ''Invalid or expired verification token.'',
          data = NoData, errorId = None, retryAfter = None \<rparr>, [bob, alice])
   \<and> verifyEmail example_hash 2000 [bob, alice] (QString ''tok-a'')
     = verifyEmail example_hash 1000 [bob, alice] (QString ''tok-b'')
   \<and> verifyEmail example_hash 1000 [bob] (QString ''tok-a'')
     = (\<lparr> status = 400, success = False, message = ''Invalid or expired verification token.'',
          data = NoData, errorId = None, retryAfter = None \<rparr>, [bob])
   \<and> status (fst (verifyEmail example_hash 1999 [bob, alice] (QString ''tok-a''))) = 200
   \<and> resetPassword example_hash example_hash 3000 [bob, alice] ''rst-a'' ''12345678''
     = (\<lparr> status = 400, success = False, message = ''Invalid or expired reset token.'',
          data = NoData, errorId = None, retryAfter = None \<rparr>, [bob, alice])
   \<and> status (fst (resetPassword example_hash example_hash 1999 [bob, alice] ''rst-a'' ''12345678'')) = 200"
  using single_use_token_generic_rejection
          [of example_hash 3000 "[bob, alice]" "QString ''tok-a''" "''rst-a''" example_hash "''12345678''"]
        single_use_token_generic_rejection
          [of example_hash 1999 "[bob, alice]" "QString ''tok-a''" "''rst-a''" example_hash "''12345678''"]
  by (simp add: verifyEmail_def resetPassword_def findOne_def date_gt_def failure_def ok_def
        alice_simps bob_simps example_hash_def)


text \<open>
  C2. Given that at most one identity holds the hash of the presented token (tokens are
  unique), a successful consume clears the stored hash and the stored expiry in the one
  update that marks the email verified, or that sets the new password; in the resulting
  store every further consume of the same plaintext, at any time, is rejected with the
  generic 400 response and changes nothing.
\<close>

theorem consumed_token_cannot_be_reused:
  assumes "length (filter (\<lambda>d. emailVerificationToken d = Some (sha256 token)) store) \<le> 1"
      and "length (filter (\<lambda>d. passwordResetToken d = Some (sha256 token)) store) \<le> 1"
  shows "(verifyEmail sha256 now store (QString token) = (r, store') \<and> status r = 200
          \<longrightarrow> (\<exists>user\<in>set store. verification_live sha256 now token user
                 \<and> store' = map (\<lambda>d. if u_id d = u_id user
                                       then user\<lparr> isEmailVerified := True,
                                                  emailVerificationToken := None,
                                                  emailVerificationExpires := None \<rparr>
                                       else d) store)
              \<and> (\<forall>now'. verifyEmail sha256 now' store' (QString token)
                           = (\<lparr> status = 400, success = False,
                                 message = ''Invalid or expired verification token.'',
                                 data = NoData, errorId = None, retryAfter = None \<rparr>, store')))
       \<and> (resetPassword sha256 hashPassword now store token newPassword = (r2, store2) \<and> status r2 = 200
          \<longrightarrow> (\<exists>user\<in>set store. reset_live sha256 now token user
                 \<and> store2 = map (\<lambda>d. if u_id d = u_id user
                                       then user\<lparr> password := Some (hashPassword newPassword),
                                                  passwordResetToken := None,
                                                  passwordResetExpires := None \<rparr>
                                       else d) store)
              \<and> (\<forall>now' pw'. 8 \<le> length pw'
                     \<longrightarrow> resetPassword sha256 hashPassword now' store2 token pw'
                           = (\<lparr> status = 400, success = False,
                                 message = ''Invalid or expired reset token.'',
                                 data = NoData, errorId = None, retryAfter = None \<rparr>, store2))
              \<and> (\<forall>now' pw'. status (fst (resetPassword sha256 hashPassword now' store2 token pw')) = 400
                     \<and> snd (resetPassword sha256 hashPassword now' store2 token pw') = store2))"
proof (intro conjI impI)
  assume a: "verifyEmail sha256 now store (QString token) = (r, store') \<and> status r = 200"
  then have "status (fst (verifyEmail sha256 now store (QString token))) = 200" by simp
  from verifyEmail_success[OF this] a obtain user where
    u: "token \<noteq> []" "user \<in> set store" "verification_live sha256 now token user"
    and s: "store' = save (user\<lparr> isEmailVerified := True, emailVerificationToken := None,
                              emailVerificationExpires := None \<rparr>) store"
    by auto
  from u s show "\<exists>user\<in>set store. verification_live sha256 now token user
       \<and> store' = map (\<lambda>d. if u_id d = u_id user
                 then user\<lparr> isEmailVerified := True, emailVerificationToken := None,
                            emailVerificationExpires := None \<rparr> else d) store"
    unfolding save_def by (intro bexI[of _ user]) simp_all
  have gone: "\<forall>d\<in>set store'. emailVerificationToken d \<noteq> Some (sha256 token)"
    unfolding s using assms(1) u(2,3) by (intro verification_hash_gone[of _ store user]) simp_all
  show "\<forall>now'. verifyEmail sha256 now' store' (QString token)
          = (\<lparr> status = 400, success = False, message = ''Invalid or expired verification token.'',
                data = NoData, errorId = None, retryAfter = None \<rparr>, store')"
    using verifyEmail_rejects[of token store' sha256] u(1) gone
    unfolding failure_def by blast
next
  assume a: "resetPassword sha256 hashPassword now store token newPassword = (r2, store2) \<and> status r2 = 200"
  then have "status (fst (resetPassword sha256 hashPassword now store token newPassword)) = 200" by simp
  from resetPassword_success[OF this] a obtain user where
    u: "token \<noteq> []" "user \<in> set store" "reset_live sha256 now token user"
    and s: "store2 = save (user\<lparr> password := Some (hashPassword newPassword),
                              passwordResetToken := None, passwordResetExpires := None \<rparr>) store"
    by auto
  from u s show "\<exists>user\<in>set store. reset_live sha256 now token user
       \<and> store2 = map (\<lambda>d. if u_id d = u_id user
                 then user\<lparr> password := Some (hashPassword newPassword),
                            passwordResetToken := None, passwordResetExpires := None \<rparr> else d) store"
    unfolding save_def by (intro bexI[of _ user]) simp_all
  have gone: "\<forall>d\<in>set store2. passwordResetToken d \<noteq> Some (sha256 token)"
    unfolding s using assms(2) u(2,3) by (intro reset_hash_gone[of _ store user]) simp_all
  show "\<forall>now' pw'. 8 \<le> length pw'
          \<longrightarrow> resetPassword sha256 hashPassword now' store2 token pw'
          = (\<lparr> status = 400, success = False, message = ''Invalid or expired reset token.'',
                data = NoData, errorId = None, retryAfter = None \<rparr>, store2)"
    using resetPassword_rejects[of token _ store2 sha256 _ hashPassword] u(1) gone
    unfolding failure_def by blast
  show "\<forall>now' pw'. status (fst (resetPassword sha256 hashPassword now' store2 token pw')) = 400
          \<and> snd (resetPassword sha256 hashPassword now' store2 token pw') = store2"
  proof (intro allI)
    fix now' pw'
    have "status (fst (resetPassword sha256 hashPassword now' store2 token pw')) \<noteq> 200"
      using gone by (auto simp: resetPassword_200_iff)
    then show "status (fst (resetPassword sha256 hashPassword now' store2 token pw')) = 400
          \<and> snd (resetPassword sha256 hashPassword now' store2 token pw') = store2"
      by (rule resetPassword_failed)
  qed
qed

theorem consumed_token_cannot_be_reused_witness:
  "status (fst (verifyEmail example_hash 1000 [bob, alice] (QString ''tok-a''))) = 200
   \<and> verifyEmail example_hash 1001
        (snd (verifyEmail example_hash 1000 [bob, alice] (QString ''tok-a''))) (QString ''tok-a'')
      = (\<lparr> status = 400, success = False, message = ''Invalid or expired verification token.'',
            data = NoData, errorId = None, retryAfter = None \<rparr>,
         snd (verifyEmail example_hash 1000 [bob, alice] (QString ''tok-a'')))
   \<and> status (fst (resetPassword example_hash example_hash 1000 [bob, alice] ''rst-a'' ''new-password'')) = 200
   \<and> resetPassword example_hash example_hash 1001
        (snd (resetPassword example_hash example_hash 1000 [bob, alice] ''rst-a'' ''new-password''))
        ''rst-a'' ''other-password''
      = (\<lparr> status = 400, success = False, message = ''Invalid or expired reset token.'',
            data = NoData, errorId = None, retryAfter = None \<rparr>,
         snd (resetPassword example_hash example_hash 1000 [bob, alice] ''rst-a'' ''new-password''))"
proof -
  have v: "status (fst (verifyEmail example_hash 1000 [bob, alice] (QString ''tok-a''))) = 200"
    by (simp add: verifyEmail_def findOne_def date_gt_def ok_def alice_simps bob_simps example_hash_def)
  have r: "status (fst (resetPassword example_hash example_hash 1000 [bob, alice] ''rst-a'' ''new-password'')) = 200"
    by (simp add: resetPassword_def findOne_def date_gt_def ok_def alice_simps bob_simps example_hash_def)
  have u1: "length (filter (\<lambda>d. emailVerificationToken d = Some (example_hash ''tok-a'')) [bob, alice]) \<le> 1"
           "length (filter (\<lambda>d. passwordResetToken d = Some (example_hash ''tok-a'')) [bob, alice]) \<le> 1"
    by (simp_all add: alice_simps bob_simps example_hash_def)
  have u2: "length (filter (\<lambda>d. emailVerificationToken d = Some (example_hash ''rst-a'')) [bob, alice]) \<le> 1"
           "length (filter (\<lambda>d. passwordResetToken d = Some (example_hash ''rst-a'')) [bob, alice]) \<le> 1"
    by (simp_all add: alice_simps bob_simps example_hash_def)
  from consumed_token_cannot_be_reused
         [where ?sha256.0 = example_hash and token = "''tok-a''" and store = "[bob, alice]"
            and now = 1000
            and r = "fst (verifyEmail example_hash 1000 [bob, alice] (QString ''tok-a''))"
            and store' = "snd (verifyEmail example_hash 1000 [bob, alice] (QString ''tok-a''))",
          OF u1] v
  have a: "verifyEmail example_hash 1001
        (snd (verifyEmail example_hash 1000 [bob, alice] (QString ''tok-a''))) (QString ''tok-a'')
      = (\<lparr> status = 400, success = False, message = ''Invalid or expired verification token.'',
            data = NoData, errorId = None, retryAfter = None \<rparr>,
         snd (verifyEmail example_hash 1000 [bob, alice] (QString ''tok-a'')))"
    by simp
  from consumed_token_cannot_be_reused
         [where ?sha256.0 = example_hash and token = "''rst-a''" and store = "[bob, alice]"
            and now = 1000 and hashPassword = example_hash and newPassword = "''new-password''"
            and ?r2.0 = "fst (resetPassword example_hash example_hash 1000 [bob, alice] ''rst-a'' ''new-password'')"
            and ?store2.0 = "snd (resetPassword example_hash example_hash 1000 [bob, alice] ''rst-a'' ''new-password'')",
          OF u2] r
  have b: "resetPassword example_hash example_hash 1001
        (snd (resetPassword example_hash example_hash 1000 [bob, alice] ''rst-a'' ''new-password''))
        ''rst-a'' ''other-password''
      = (\<lparr> status = 400, success = False, message = ''Invalid or expired reset token.'',
            data = NoData, errorId = None, retryAfter = None \<rparr>,
         snd (resetPassword example_hash example_hash 1000 [bob, alice] ''rst-a'' ''new-password''))"
    by simp
  from v a r b show ?thesis by blast
qed

subsection \<open>Bearer extraction\<close>

text \<open>
  C8. Bearer extraction returns a token exactly for a header of the form
  \<^verbatim>\<open>"Bearer <token>"\<close>, and the token is the part after the prefix; for every other
  header value (absent, empty, another scheme, malformed) the result is null. The
  function is total: no input raises.
\<close>

theorem extractTokenFromHeader_bearer_only:
  "(extractTokenFromHeader hdr = Some t) = (hdr = Some (''Bearer '' @ t))"
proof (cases hdr)
  case None
  then show ?thesis by (simp add: extractTokenFromHeader_def)
next
  case (Some h)
  have "(take 7 h = ''Bearer '' \<and> drop 7 h = t) = (h = ''Bearer '' @ t)"
  proof
    assume a: "take 7 h = ''Bearer '' \<and> drop 7 h = t"
    have "h = take 7 h @ drop 7 h" by simp
    with a show "h = ''Bearer '' @ t" by simp
  next
    assume "h = ''Bearer '' @ t"
    then show "take 7 h = ''Bearer '' \<and> drop 7 h = t" by simp
  qed
  with Some show ?thesis
    by (auto simp: extractTokenFromHeader_def)
qed

theorem extractTokenFromHeader_bearer_only_witness:
  "extractTokenFromHeader (Some ''Bearer abc.def'') = Some ''abc.def''
   \<and> extractTokenFromHeader (Some ''Basic abc'') = None
   \<and> extractTokenFromHeader (Some ''bearer abc'') = None
   \<and> extractTokenFromHeader (Some ''Bearer '') = Some ''''
   \<and> extractTokenFromHeader None = None"
  using extractTokenFromHeader_bearer_only [of "Some ''Bearer abc.def''" "''abc.def''"]
  by (simp add: extractTokenFromHeader_def)

subsection \<open>Authentication gate\<close>

text \<open>
  C3. The authentication gate is this state machine: no bearer token extracted (no header,
  another scheme, or an empty token) gives 401; a token whose verification fails gives
  401; a verified token whose subject id names no identity gives 401; an identity that
  is marked inactive gives 401; an identity that is found and active is attached to the
  request, without its password, and the next handler runs.
\<close>

theorem authenticate_state_machine:
  "(extractTokenFromHeader hdr = None \<or> extractTokenFromHeader hdr = Some []
      \<longrightarrow> authenticate e decode now store hdr
            = Responded \<lparr> status = 401, success = False,
                          message = ''Access denied. No token provided.'',
                          data = NoData, errorId = None, retryAfter = None \<rparr>)
   \<and> (extractTokenFromHeader hdr = Some token \<and> token \<noteq> []
        \<and> verifyAccessToken e decode now token = Inl err
      \<longrightarrow> authenticate e decode now store hdr
            = Responded \<lparr> status = 401, success = False,
                          message = ''Invalid or expired token.'',
                          data = NoData, errorId = None, retryAfter = None \<rparr>)
   \<and> (extractTokenFromHeader hdr = Some token \<and> token \<noteq> []
        \<and> verifyAccessToken e decode now token = Inr decoded
        \<and> find (\<lambda>d. u_id d = jwt_userId decoded) store = None
      \<longrightarrow> authenticate e decode now store hdr
            = Responded \<lparr> status = 401, success = False,
                          message = ''User not found.'',
                          data = NoData, errorId = None, retryAfter = None \<rparr>)
   \<and> (extractTokenFromHeader hdr = Some token \<and> token \<noteq> []
        \<and> verifyAccessToken e decode now token = Inr decoded
        \<and> find (\<lambda>d. u_id d = jwt_userId decoded) store = Some user
        \<and> \<not> isActive user
      \<longrightarrow> authenticate e decode now store hdr
            = Responded \<lparr> status = 401, success = False,
                          message = ''Account has been deactivated.'',
                          data = NoData, errorId = None, retryAfter = None \<rparr>)
   \<and> (extractTokenFromHeader hdr = Some token \<and> token \<noteq> []
        \<and> verifyAccessToken e decode now token = Inr decoded
        \<and> find (\<lambda>d. u_id d = jwt_userId decoded) store = Some user
        \<and> isActive user
      \<longrightarrow> authenticate e decode now store hdr = Next (user\<lparr>password := None\<rparr>))"
  by (auto simp: authenticate_def failure_def findById_without_password_def)

theorem authenticate_state_machine_witness:
  "authenticate example_env example_decode 5000 [bob, alice] None
     = Responded \<lparr> status = 401, success = False, message = ''Access denied. No token provided.'',
                   data = NoData, errorId = None, retryAfter = None \<rparr>
   \<and> authenticate example_env example_decode 5000 [bob, alice] (Some ''Bearer junk'')
     = Responded \<lparr> status = 401, success = False, message = ''Invalid or expired token.'',
                   data = NoData, errorId = None, retryAfter = None \<rparr>
   \<and> authenticate example_env example_decode 5000 [bob, alice] (Some ''Bearer access-ghost'')
     = Responded \<lparr> status = 401, success = False, message = ''User not found.'',
                   data = NoData, errorId = None, retryAfter = None \<rparr>
   \<and> authenticate example_env example_decode 5000 [bob, alice] (Some ''Bearer access-bob'')
     = Responded \<lparr> status = 401, success = False, message = ''Account has been deactivated.'',
                   data = NoData, errorId = None, retryAfter = None \<rparr>
   \<and> authenticate example_env example_decode 5000 [bob, alice] (Some ''Bearer access-alice'')
     = Next (alice\<lparr>password := None\<rparr>)"
proof -
  have x: "extractTokenFromHeader None = None"
          "extractTokenFromHeader (Some ''Bearer junk'') = Some ''junk''"
          "extractTokenFromHeader (Some ''Bearer access-ghost'') = Some ''access-ghost''"
          "extractTokenFromHeader (Some ''Bearer access-bob'') = Some ''access-bob''"
          "extractTokenFromHeader (Some ''Bearer access-alice'') = Some ''access-alice''"
    by (simp_all add: extractTokenFromHeader_def)
  show ?thesis
    using authenticate_state_machine [of None example_env example_decode 5000 "[bob, alice]"]
          authenticate_state_machine [of "Some ''Bearer junk''" example_env example_decode 5000
             "[bob, alice]" "''junk''" "''Invalid or expired access token: jwt malformed''"]
          authenticate_state_machine [of "Some ''Bearer access-ghost''" example_env example_decode 5000
             "[bob, alice]" "''access-ghost''" _ "generateAccessToken example_env 0 (alice\<lparr>u_id := ''u9''\<rparr>)"]
          authenticate_state_machine [of "Some ''Bearer access-bob''" example_env example_decode 5000
             "[bob, alice]" "''access-bob''" _ "generateAccessToken example_env 0 bob" bob]
          authenticate_state_machine [of "Some ''Bearer access-alice''" example_env example_decode 5000
             "[bob, alice]" "''access-alice''" _ "generateAccessToken example_env 0 alice" alice]
    by (simp add: x example_verify generateAccessToken_def jwt_sign_def alice_simps bob_simps)
qed

text \<open>
  C10. The identity that the authentication gate attaches to an accepted request carries
  no password, and the profile response is that identity: two account stores that differ
  only in stored password hashes give identical responses on GET /profile.
\<close>

theorem profile_never_shows_password:
  "(authenticate e decode now store hdr = Next user
      \<longrightarrow> password user = None
          \<and> profile_route e decode now store hdr
              = \<lparr> status = 200, success = True, message = ''Profile retrieved successfully.'',
                  data = ProfileData user, errorId = None, retryAfter = None \<rparr>)
   \<and> (map (\<lambda>d. d\<lparr>password := None\<rparr>) store1 = map (\<lambda>d. d\<lparr>password := None\<rparr>) store2
      \<longrightarrow> profile_route e decode now store1 hdr = profile_route e decode now store2 hdr)"
proof (intro conjI impI)
  assume a: "authenticate e decode now store hdr = Next user"
  then show "password user = None" by (rule authenticate_Next_password)
  from a show "profile_route e decode now store hdr
              = \<lparr> status = 200, success = True, message = ''Profile retrieved successfully.'',
                  data = ProfileData user, errorId = None, retryAfter = None \<rparr>"
    by (simp add: profile_route_def getProfile_def ok_def)
next
  assume same: "map (\<lambda>d. d\<lparr>password := None\<rparr>) store1 = map (\<lambda>d. d\<lparr>password := None\<rparr>) store2"
  show "profile_route e decode now store1 hdr = profile_route e decode now store2 hdr"
    unfolding profile_route_def authenticate_cong[OF same] ..
qed


theorem profile_never_shows_password_witness:
  "profile_route example_env example_decode 5000 [bob, alice] (Some ''Bearer access-alice'')
     = \<lparr> status = 200, success = True, message = ''Profile retrieved successfully.'',
         data = ProfileData (alice\<lparr>password := None\<rparr>), errorId = None, retryAfter = None \<rparr>
   \<and> profile_route example_env example_decode 5000 [bob, alice\<lparr>password := Some ''another-hash''\<rparr>]
        (Some ''Bearer access-alice'')
     = profile_route example_env example_decode 5000 [bob, alice] (Some ''Bearer access-alice'')
   \<and> password alice = Some ''pw:alice-secret''"
  using profile_never_shows_password
          [of example_env example_decode 5000 "[bob, alice]" "Some ''Bearer access-alice''"
              "alice\<lparr>password := None\<rparr>"
              "[bob, alice\<lparr>password := Some ''another-hash''\<rparr>]" "[bob, alice]"]
  by (simp add: example_authenticated alice_simps)

subsection \<open>Session tokens\<close>

text \<open>
  C7. With two different keys configured (the defaults differ), the refresh-token verifier
  rejects every token signed with the access-token key and the access-token verifier
  rejects every token signed with the refresh-token key; both verifiers reject a token
  whose issuer is not \<^verbatim>\<open>taskflow-api\<close> or whose audience does not include
  \<^verbatim>\<open>taskflow-app\<close>, and a token whose expiry has been reached. A token the service
  issued is accepted by the verifier of its own kind until its expiry (7 days for an
  access token, 30 days for a refresh token) and rejected by the other verifier.
\<close>

theorem session_token_keys_issuer_audience_expiry:
  assumes "JWT_SECRET e \<noteq> JWT_REFRESH_SECRET e"
  shows "(decode token = Some t \<and> jwt_key t = JWT_SECRET e
            \<longrightarrow> (\<exists>msg. verifyRefreshToken e decode now token = Inl msg))
       \<and> (decode token = Some t \<and> jwt_key t = JWT_REFRESH_SECRET e
            \<longrightarrow> (\<exists>msg. verifyAccessToken e decode now token = Inl msg))
       \<and> (decode token = Some t
            \<and> (jwt_iss t \<noteq> Some ''taskflow-api'' \<or> ''taskflow-app'' \<notin> set (jwt_aud t))
            \<longrightarrow> (\<exists>msg. verifyAccessToken e decode now token = Inl msg)
              \<and> (\<exists>msg. verifyRefreshToken e decode now token = Inl msg))
       \<and> (decode token = Some t \<and> jwt_exp t = Some x \<and> x \<le> now div 1000
            \<longrightarrow> (\<exists>msg. verifyAccessToken e decode now token = Inl msg)
              \<and> (\<exists>msg. verifyRefreshToken e decode now token = Inl msg))
       \<and> (decode token = Some (generateAccessToken e issued user)
            \<longrightarrow> (\<exists>msg. verifyRefreshToken e decode now token = Inl msg)
              \<and> (now div 1000 < issued div 1000 + 7 * 24 * 60 * 60
                   \<longrightarrow> verifyAccessToken e decode now token = Inr (generateAccessToken e issued user))
              \<and> (issued div 1000 + 7 * 24 * 60 * 60 \<le> now div 1000
                   \<longrightarrow> (\<exists>msg. verifyAccessToken e decode now token = Inl msg)))
       \<and> (decode token = Some (generateRefreshToken e issued userId)
            \<longrightarrow> (\<exists>msg. verifyAccessToken e decode now token = Inl msg)
              \<and> (now div 1000 < issued div 1000 + 30 * 24 * 60 * 60
                   \<longrightarrow> verifyRefreshToken e decode now token = Inr (generateRefreshToken e issued userId))
              \<and> (issued div 1000 + 30 * 24 * 60 * 60 \<le> now div 1000
                   \<longrightarrow> (\<exists>msg. verifyRefreshToken e decode now token = Inl msg)))"
proof -
  have acc: "jwt_key (generateAccessToken e issued user) = JWT_SECRET e"
            "jwt_exp (generateAccessToken e issued user) = Some (issued div 1000 + 7 * 24 * 60 * 60)"
            "jwt_iss (generateAccessToken e issued user) = Some ''taskflow-api''"
            "jwt_aud (generateAccessToken e issued user) = [''taskflow-app'']"
    by (simp_all add: generateAccessToken_def jwt_sign_def)
  have ref: "jwt_key (generateRefreshToken e issued userId) = JWT_REFRESH_SECRET e"
            "jwt_exp (generateRefreshToken e issued userId) = Some (issued div 1000 + 30 * 24 * 60 * 60)"
            "jwt_iss (generateRefreshToken e issued userId) = Some ''taskflow-api''"
            "jwt_aud (generateRefreshToken e issued userId) = [''taskflow-app'']"
    by (simp_all add: generateRefreshToken_def jwt_sign_def)
  show ?thesis
    using assms
    unfolding rejected_iff_not_Inr verifyAccessToken_Inr_iff verifyRefreshToken_Inr_iff jwt_verify_Inr_iff
    by (intro conjI impI allI) (auto simp: acc ref)
qed

theorem session_token_keys_issuer_audience_expiry_witness:
  "JWT_SECRET example_env \<noteq> JWT_REFRESH_SECRET example_env
   \<and> (\<exists>msg. verifyRefreshToken example_env example_decode 5000 ''access-alice'' = Inl msg)
   \<and> (\<exists>msg. verifyAccessToken example_env example_decode 5000 ''refresh-alice'' = Inl msg)
   \<and> (\<exists>msg. verifyAccessToken example_env example_decode 5000 ''foreign-alice'' = Inl msg)
   \<and> verifyAccessToken example_env example_decode 5000 ''access-alice''
       = Inr (generateAccessToken example_env 0 alice)
   \<and> verifyRefreshToken example_env example_decode 5000 ''refresh-alice''
       = Inr (generateRefreshToken example_env 0 ''u1'')
   \<and> (\<exists>msg. verifyAccessToken example_env example_decode 604800000 ''access-alice'' = Inl msg)"
proof -
  have k: "JWT_SECRET example_env \<noteq> JWT_REFRESH_SECRET example_env"
    by (simp add: example_secret example_refresh_secret)
  note T = session_token_keys_issuer_audience_expiry
             [where e = example_env and decode = example_decode, OF k]
  have a: "(\<exists>msg. verifyRefreshToken example_env example_decode 5000 ''access-alice'' = Inl msg)
           \<and> verifyAccessToken example_env example_decode 5000 ''access-alice''
               = Inr (generateAccessToken example_env 0 alice)"
    using T [where token = "''access-alice''" and issued = 0 and user = alice and now = 5000]
    by (simp add: example_decode_def)
  have b: "(\<exists>msg. verifyAccessToken example_env example_decode 5000 ''refresh-alice'' = Inl msg)
           \<and> verifyRefreshToken example_env example_decode 5000 ''refresh-alice''
               = Inr (generateRefreshToken example_env 0 ''u1'')"
    using T [where token = "''refresh-alice''" and issued = 0 and userId = "''u1''" and now = 5000]
    by (simp add: example_decode_def)
  have c: "\<exists>msg. verifyAccessToken example_env example_decode 5000 ''foreign-alice'' = Inl msg"
    using T [where token = "''foreign-alice''" and now = 5000
               and t = "(generateAccessToken example_env 0 alice)\<lparr>jwt_iss := Some ''other-api''\<rparr>"]
    by (simp add: example_decode_def)
  have d: "\<exists>msg. verifyAccessToken example_env example_decode 604800000 ''access-alice'' = Inl msg"
    using T [where token = "''access-alice''" and issued = 0 and user = alice and now = 604800000]
    by (simp add: example_decode_def)
  from k a b c d show ?thesis by blast
qed

subsection \<open>Login and password recovery\<close>

text \<open>
  C5, as amended. For a login request with an email and a password, an unknown email (no
  identity has the email as the runtime's \<^verbatim>\<open>toLowerCase\<close> lowers it, for every lowering
  function) and a known email of an active account with a wrong password give the same 401 response
  with the message \<^verbatim>\<open>Invalid email or password.\<close>, set no cookie and leave the store
  unchanged. An account that is deactivated answers 401 with
  \<^verbatim>\<open>Account has been deactivated. Please contact support.\<close> whatever the password:
  the active check comes before the password check.
\<close>

theorem login_generic_failure:
  "em \<noteq> [] \<and> pw \<noteq> [] \<longrightarrow>
     ((\<forall>d\<in>set store. email d \<noteq> toLowerCase em)
        \<longrightarrow> login toLowerCase cmp e now store em pw
              = (\<lparr> status = 401, success = False, message = ''Invalid email or password.'',
                    data = NoData, errorId = None, retryAfter = None \<rparr>, None, store))
     \<and> (findOne (\<lambda>d. email d = toLowerCase em) store = Some user
          \<and> isActive user \<and> \<not> comparePassword cmp user pw
        \<longrightarrow> login toLowerCase cmp e now store em pw
              = (\<lparr> status = 401, success = False, message = ''Invalid email or password.'',
                    data = NoData, errorId = None, retryAfter = None \<rparr>, None, store))
     \<and> (findOne (\<lambda>d. email d = toLowerCase em) store = Some user \<and> \<not> isActive user
        \<longrightarrow> login toLowerCase cmp e now store em pw
              = (\<lparr> status = 401, success = False,
                    message = ''Account has been deactivated. Please contact support.'',
                    data = NoData, errorId = None, retryAfter = None \<rparr>, None, store))"
  using login_unknown
          [where em = em and pw = pw and store = store and toLowerCase = toLowerCase
             and cmp = cmp and e = e and now = now]
        login_wrong_password
          [where em = em and pw = pw and store = store and toLowerCase = toLowerCase
             and user = user and cmp = cmp and e = e and now = now]
        login_deactivated
          [where em = em and pw = pw and store = store and toLowerCase = toLowerCase
             and user = user and cmp = cmp and e = e and now = now]
  unfolding failure_def by blast

theorem login_generic_failure_witness:
  "login example_toLowerCase example_cmp example_env 0 [bob, alice] ''nobody@x.com'' ''guess''
     = (\<lparr> status = 401, success = False, message = ''Invalid email or password.'',
           data = NoData, errorId = None, retryAfter = None \<rparr>, None, [bob, alice])
   \<and> login example_toLowerCase example_cmp example_env 0 [bob, alice] ''Alice@X.com'' ''guess''
     = login example_toLowerCase example_cmp example_env 0 [bob, alice] ''nobody@x.com'' ''guess''
   \<and> fst (login example_toLowerCase example_cmp example_env 0 [bob, alice] ''bob@x.com'' ''bob-secret'')
     = \<lparr> status = 401, success = False,
         message = ''Account has been deactivated. Please contact support.'',
         data = NoData, errorId = None, retryAfter = None \<rparr>
   \<and> status (fst (login example_toLowerCase example_cmp example_env 0 [bob, alice] ''Alice@X.com'' ''alice-secret'')) = 200"
proof -
  have f: "findOne (\<lambda>d. email d = example_toLowerCase ''Alice@X.com'') [bob, alice] = Some alice"
          "findOne (\<lambda>d. email d = example_toLowerCase ''bob@x.com'') [bob, alice] = Some bob"
    by (simp_all add: findOne_def example_lower alice_simps bob_simps)
  have n: "\<forall>d\<in>set [bob, alice]. email d \<noteq> example_toLowerCase ''nobody@x.com''"
    by (simp add: example_lower alice_simps bob_simps)
  have c: "\<not> comparePassword example_cmp alice ''guess''"
    by (simp add: comparePassword_def example_cmp_def alice_simps)
  have a: "login example_toLowerCase example_cmp example_env 0 [bob, alice] ''nobody@x.com'' ''guess''
     = (\<lparr> status = 401, success = False, message = ''Invalid email or password.'',
           data = NoData, errorId = None, retryAfter = None \<rparr>, None, [bob, alice])"
    using login_generic_failure
            [where em = "''nobody@x.com''" and pw = "''guess''" and store = "[bob, alice]"
               and toLowerCase = example_toLowerCase and cmp = example_cmp
               and e = example_env and now = 0] n
    by simp
  have b: "login example_toLowerCase example_cmp example_env 0 [bob, alice] ''Alice@X.com'' ''guess''
     = (\<lparr> status = 401, success = False, message = ''Invalid email or password.'',
           data = NoData, errorId = None, retryAfter = None \<rparr>, None, [bob, alice])"
    using login_generic_failure
            [where em = "''Alice@X.com''" and pw = "''guess''" and store = "[bob, alice]"
               and toLowerCase = example_toLowerCase and cmp = example_cmp
               and e = example_env and now = 0 and user = alice] f c
    by (simp add: alice_simps)
  have d: "fst (login example_toLowerCase example_cmp example_env 0 [bob, alice] ''bob@x.com'' ''bob-secret'')
     = \<lparr> status = 401, success = False,
         message = ''Account has been deactivated. Please contact support.'',
         data = NoData, errorId = None, retryAfter = None \<rparr>"
    using login_generic_failure
            [where em = "''bob@x.com''" and pw = "''bob-secret''" and store = "[bob, alice]"
               and toLowerCase = example_toLowerCase and cmp = example_cmp
               and e = example_env and now = 0 and user = bob] f
    by (simp add: bob_simps)
  have s: "status (fst (login example_toLowerCase example_cmp example_env 0 [bob, alice] ''Alice@X.com'' ''alice-secret'')) = 200"
    by (simp add: login_def f comparePassword_def example_cmp_def alice_simps ok_def Let_def)
  from a b d s show ?thesis by simp
qed

text \<open>
  The claim as stated fails for a deactivated account: its email with a wrong password
  does not get the response of an unknown email.
\<close>

theorem login_deactivated_counterexample:
  "findOne (\<lambda>d. email d = example_toLowerCase ''bob@x.com'') [bob, alice] = Some bob
   \<and> \<not> comparePassword example_cmp bob ''guess''
   \<and> fst (login example_toLowerCase example_cmp example_env 0 [bob, alice] ''bob@x.com'' ''guess'')
       = \<lparr> status = 401, success = False,
           message = ''Account has been deactivated. Please contact support.'',
           data = NoData, errorId = None, retryAfter = None \<rparr>
   \<and> fst (login example_toLowerCase example_cmp example_env 0 [bob, alice] ''nobody@x.com'' ''guess'')
       = \<lparr> status = 401, success = False, message = ''Invalid email or password.'',
           data = NoData, errorId = None, retryAfter = None \<rparr>
   \<and> fst (login example_toLowerCase example_cmp example_env 0 [bob, alice] ''bob@x.com'' ''guess'')
       \<noteq> fst (login example_toLowerCase example_cmp example_env 0 [bob, alice] ''nobody@x.com'' ''guess'')"
  by (simp add: login_def findOne_def example_lower comparePassword_def example_cmp_def
        failure_def alice_simps bob_simps)

text \<open>
  C6. A forgot-password request that names an email (a non-empty one) with no matching
  account, that is, no identity has the email as the runtime's \<^verbatim>\<open>toLowerCase\<close> lowers
  it, returns 200 with the generic message and leaves the account store unchanged. This
  holds for every lowering function.
\<close>

theorem forgotPassword_unknown_email:
  "em \<noteq> [] \<and> (\<forall>d\<in>set store. email d \<noteq> toLowerCase em)
     \<longrightarrow> forgotPassword toLowerCase sha256 rnd sendOk uuid now store em
           = (\<lparr> status = 200, success = True,
                 message = ''If an account with this email exists, a password reset link has been sent.'',
                 data = NoData, errorId = None, retryAfter = None \<rparr>, store)"
  using forgotPassword_unknown
          [where em = em and store = store and toLowerCase = toLowerCase and ?sha256.0 = sha256
             and rnd = rnd and sendOk = sendOk and uuid = uuid and now = now]
  unfolding ok_def by blast

theorem forgotPassword_unknown_email_witness:
  "forgotPassword example_toLowerCase example_hash ''r1'' False ''id-1'' 1000 [bob, alice] ''nobody@x.com''
     = (\<lparr> status = 200, success = True,
           message = ''If an account with this email exists, a password reset link has been sent.'',
           data = NoData, errorId = None, retryAfter = None \<rparr>, [bob, alice])
   \<and> snd (forgotPassword example_toLowerCase example_hash ''r1'' True ''id-1'' 1000 [bob, alice] ''Alice@X.com'')
     \<noteq> [bob, alice]"
proof -
  have n: "\<forall>d\<in>set [bob, alice]. email d \<noteq> example_toLowerCase ''nobody@x.com''"
    by (simp add: example_lower alice_simps bob_simps)
  have a: "forgotPassword example_toLowerCase example_hash ''r1'' False ''id-1'' 1000 [bob, alice] ''nobody@x.com''
     = (\<lparr> status = 200, success = True,
           message = ''If an account with this email exists, a password reset link has been sent.'',
           data = NoData, errorId = None, retryAfter = None \<rparr>, [bob, alice])"
    using forgotPassword_unknown_email
            [where em = "''nobody@x.com''" and store = "[bob, alice]"
               and toLowerCase = example_toLowerCase and ?sha256.0 = example_hash
               and rnd = "''r1''" and sendOk = False and uuid = "''id-1''" and now = 1000] n
    by simp
  have "passwordResetToken (snd (forgotPassword example_toLowerCase example_hash ''r1'' True ''id-1'' 1000 [bob, alice] ''Alice@X.com'') ! 1)
          = Some ''h:r1''"
    by (simp add: forgotPassword_def findOne_def example_lower generatePasswordResetToken_def
          save_def alice_simps bob_simps example_hash_def)
  then have b: "snd (forgotPassword example_toLowerCase example_hash ''r1'' True ''id-1'' 1000 [bob, alice] ''Alice@X.com'')
     \<noteq> [bob, alice]"
    by (auto simp: alice_simps)
  from a b show ?thesis by simp
qed

subsection \<open>Rate limiter\<close>

text \<open>
  C4, as amended. With limit 5 and window 900000 ms, for every client: a request that
  finds no window, or a window whose reset time is strictly before the request, starts a
  window with count 1 and is allowed; the next four requests up to the reset time are
  allowed and bring the count to 5; a sixth request up to the reset time is rejected with
  429, leaves the window as it is, and carries as \<^verbatim>\<open>retryAfter\<close> the time remaining in
  the window in whole seconds, rounded up, which is positive exactly when the request
  comes strictly before the reset time; the first request strictly after the reset time
  is allowed and starts a new window with count 1.
\<close>

theorem rate_limiter_fixed_window:
  assumes "cs (client_key ip) = None \<or> (\<exists>c. cs (client_key ip) = Some c \<and> resetTime c < t1)"
      and "\<forall>t\<in>set [t2, t3, t4, t5, t6]. t \<le> t1 + 900000"
      and "t1 + 900000 < t7"
  shows "fst (requests authRateLimit cs ip [t1, t2, t3, t4, t5, t6, t7])
           = [Next (), Next (), Next (), Next (), Next (),
              Responded (too_many_requests (ceil_div (t1 + 900000 - t6) 1000)),
              Next ()]
       \<and> 1000 * (ceil_div (t1 + 900000 - t6) 1000 - 1) < t1 + 900000 - t6
       \<and> t1 + 900000 - t6 \<le> 1000 * ceil_div (t1 + 900000 - t6) 1000
       \<and> (0 < ceil_div (t1 + 900000 - t6) 1000) = (t6 < t1 + 900000)
       \<and> snd (requests authRateLimit cs ip [t1]) (client_key ip)
           = Some \<lparr> count = 1, resetTime = t1 + 900000 \<rparr>
       \<and> snd (requests authRateLimit cs ip [t1, t2, t3, t4, t5]) (client_key ip)
           = Some \<lparr> count = 5, resetTime = t1 + 900000 \<rparr>
       \<and> snd (requests authRateLimit cs ip [t1, t2, t3, t4, t5, t6]) (client_key ip)
           = Some \<lparr> count = 5, resetTime = t1 + 900000 \<rparr>
       \<and> snd (requests authRateLimit cs ip [t1, t2, t3, t4, t5, t6, t7]) (client_key ip)
           = Some \<lparr> count = 1, resetTime = t7 + 900000 \<rparr>"
proof -
  let ?k = "client_key ip"
  let ?s = "\<lambda>n. cs(?k \<mapsto> \<lparr> count = n, resetTime = t1 + 900000 \<rparr>)"
  have L: "authRateLimit = createRateLimiter 5 900000" by (simp add: authRateLimit_def)
  have r1: "authRateLimit cs ip t1 = (Next (), ?s 1)"
    unfolding L
    using assms(1) limiter_no_window[of cs ip 5 900000 t1] limiter_elapsed[of cs ip _ t1 5 900000]
    by auto
  have live: "authRateLimit (?s n) ip t = (Next (), ?s (n + 1))" if "t \<le> t1 + 900000" "n < 5" for n t
    unfolding L
    using that limiter_below_limit[of "?s n" ip "\<lparr> count = n, resetTime = t1 + 900000 \<rparr>" t 5 900000]
    by simp
  have r2: "authRateLimit (?s 1) ip t2 = (Next (), ?s 2)"
    using live[of t2 1] assms(2) by simp
  have r3: "authRateLimit (?s 2) ip t3 = (Next (), ?s 3)"
    using live[of t3 2] assms(2) by simp
  have r4: "authRateLimit (?s 3) ip t4 = (Next (), ?s 4)"
    using live[of t4 3] assms(2) by simp
  have r5: "authRateLimit (?s 4) ip t5 = (Next (), ?s 5)"
    using live[of t5 4] assms(2) by simp
  have r6: "authRateLimit (?s 5) ip t6
              = (Responded (too_many_requests (ceil_div (t1 + 900000 - t6) 1000)), ?s 5)"
    unfolding L
    using assms(2) limiter_at_limit[of "?s 5" ip "\<lparr> count = 5, resetTime = t1 + 900000 \<rparr>" t6 5 900000]
    by simp
  have r7: "authRateLimit (?s 5) ip t7
              = (Next (), cs(?k \<mapsto> \<lparr> count = 1, resetTime = t7 + 900000 \<rparr>))"
    unfolding L
    using assms(3) limiter_elapsed[of "?s 5" ip "\<lparr> count = 5, resetTime = t1 + 900000 \<rparr>" t7 5 900000]
    by simp
  have run5: "requests authRateLimit cs ip (t1 # t2 # t3 # t4 # t5 # ts)
                = (let (rs, cs') = requests authRateLimit (?s 5) ip ts
                   in (Next () # Next () # Next () # Next () # Next () # rs, cs'))" for ts
    by (simp add: r1 r2 r3 r4 r5 split: prod.splits)
  have c1: "fst (requests authRateLimit cs ip [t1, t2, t3, t4, t5, t6, t7])
           = [Next (), Next (), Next (), Next (), Next (),
              Responded (too_many_requests (ceil_div (t1 + 900000 - t6) 1000)),
              Next ()]"
    unfolding run5 by (simp add: r6 r7)
  have c5: "snd (requests authRateLimit cs ip [t1]) ?k
              = Some \<lparr> count = 1, resetTime = t1 + 900000 \<rparr>"
    by (simp add: r1)
  have c6: "snd (requests authRateLimit cs ip [t1, t2, t3, t4, t5]) ?k
              = Some \<lparr> count = 5, resetTime = t1 + 900000 \<rparr>"
    unfolding run5 by simp
  have c7: "snd (requests authRateLimit cs ip [t1, t2, t3, t4, t5, t6]) ?k
              = Some \<lparr> count = 5, resetTime = t1 + 900000 \<rparr>"
    unfolding run5 by (simp add: r6)
  have c8: "snd (requests authRateLimit cs ip [t1, t2, t3, t4, t5, t6, t7]) ?k
              = Some \<lparr> count = 1, resetTime = t7 + 900000 \<rparr>"
    unfolding run5 by (simp add: r6 r7)
  have c4: "(0 < ceil_div (t1 + 900000 - t6) 1000) = (t6 < t1 + 900000)"
    by (simp add: ceil_div_pos_iff)
  note b = ceil_div_1000[of "t1 + 900000 - t6"]
  show ?thesis
    by (intro conjI c1 conjunct1[OF b] conjunct2[OF b] c4 c5 c6 c7 c8)
qed

theorem rate_limiter_fixed_window_witness:
  "fst (requests authRateLimit Map.empty (Some ''10.0.0.1'') [0, 1, 2, 3, 4, 5000, 900001])
     = [Next (), Next (), Next (), Next (), Next (), Responded (too_many_requests 895), Next ()]
   \<and> snd (requests authRateLimit Map.empty (Some ''10.0.0.1'') [0, 1, 2, 3, 4, 5000, 900001]) ''10.0.0.1''
     = Some \<lparr> count = 1, resetTime = 1800001 \<rparr>"
  using rate_limiter_fixed_window [of Map.empty "Some ''10.0.0.1''" 0 1 2 3 4 5000 900001]
  by (simp add: ceil_div_def)

text \<open>
  The claim as stated fails at the last instant of a window: the sixth request at exactly
  the reset time is rejected with a retry-after of 0.
\<close>

theorem rate_limiter_retry_after_zero_counterexample:
  "fst (requests authRateLimit Map.empty (Some ''10.0.0.1'') [0, 1, 2, 3, 4, 900000])
     = [Next (), Next (), Next (), Next (), Next (),
        Responded \<lparr> status = 429, success = False,
                    message = ''Too many requests. Please try again later.'',
                    data = NoData, errorId = None, retryAfter = Some 0 \<rparr>]"
  by (simp add: authRateLimit_def createRateLimiter_def ceil_div_def)

subsection \<open>Re-issuing a single-use token\<close>

text \<open>
  C9. An identity stores one hash-and-expiry pair per kind, and issuing a token
  (resend-verification for the verification kind, forgot-password for the reset kind)
  overwrites it. After the second issue, a previously issued token of that kind, one whose
  hash only this identity held and which differs from the new token's hash, is rejected
  whenever it is presented, and the newly issued token is accepted inside its window
  (24 hours for verification, 10 minutes for reset).
\<close>

theorem reissue_invalidates_previous_token:
  assumes "em \<noteq> []" and "findOne (\<lambda>d. email d = toLowerCase em) store = Some user"
      and "old \<noteq> []" and "sha256 rnd \<noteq> sha256 old"
  shows "(\<not> isEmailVerified user
            \<and> (\<forall>d\<in>set store. emailVerificationToken d = Some (sha256 old) \<longrightarrow> u_id d = u_id user)
            \<and> resendVerification toLowerCase sha256 rnd sendOk uuid now store em = (r, store')
          \<longrightarrow> (\<forall>d\<in>set store'. u_id d = u_id user
                   \<longrightarrow> emailVerificationToken d = Some (sha256 rnd)
                     \<and> emailVerificationExpires d = Some (now + 24 * 60 * 60 * 1000))
              \<and> (\<forall>now'. verifyEmail sha256 now' store' (QString old)
                           = (\<lparr> status = 400, success = False,
                                 message = ''Invalid or expired verification token.'',
                                 data = NoData, errorId = None, retryAfter = None \<rparr>, store'))
              \<and> (\<forall>now'. rnd \<noteq> [] \<and> now' < now + 24 * 60 * 60 * 1000
                     \<longrightarrow> status (fst (verifyEmail sha256 now' store' (QString rnd))) = 200))
       \<and> ((\<forall>d\<in>set store. passwordResetToken d = Some (sha256 old) \<longrightarrow> u_id d = u_id user)
            \<and> forgotPassword toLowerCase sha256 rnd sendOk uuid now store em = (r2, store2)
          \<longrightarrow> (\<forall>d\<in>set store2. u_id d = u_id user
                   \<longrightarrow> passwordResetToken d = Some (sha256 rnd)
                     \<and> passwordResetExpires d = Some (now + 10 * 60 * 1000))
              \<and> (\<forall>now' pw. 8 \<le> length pw
                     \<longrightarrow> resetPassword sha256 hashPassword now' store2 old pw
                           = (\<lparr> status = 400, success = False,
                                 message = ''Invalid or expired reset token.'',
                                 data = NoData, errorId = None, retryAfter = None \<rparr>, store2))
              \<and> (\<forall>now' pw. rnd \<noteq> [] \<and> 8 \<le> length pw \<and> now' < now + 10 * 60 * 1000
                     \<longrightarrow> status (fst (resetPassword sha256 hashPassword now' store2 rnd pw)) = 200))"
proof (intro conjI impI)
  let ?u = "user\<lparr> emailVerificationToken := Some (sha256 rnd),
                    emailVerificationExpires := Some (now + 86400000) \<rparr>"
  assume a: "\<not> isEmailVerified user
            \<and> (\<forall>d\<in>set store. emailVerificationToken d = Some (sha256 old) \<longrightarrow> u_id d = u_id user)
            \<and> resendVerification toLowerCase sha256 rnd sendOk uuid now store em = (r, store')"
  then have s: "store' = save ?u store"
    using resendVerification_store
            [where toLowerCase = toLowerCase and ?sha256.0 = sha256 and rnd = rnd
               and sendOk = sendOk and uuid = uuid and now = now, OF assms(1,2)] by simp
  show "\<forall>d\<in>set store'. u_id d = u_id user
          \<longrightarrow> emailVerificationToken d = Some (sha256 rnd)
            \<and> emailVerificationExpires d = Some (now + 24 * 60 * 60 * 1000)"
    unfolding s by (auto dest: set_saveD)
  have "\<forall>d\<in>set store'. \<not> verification_live sha256 now' old d" for now'
    unfolding s using a assms(4) by (auto dest!: set_saveD)
  then show "\<forall>now'. verifyEmail sha256 now' store' (QString old)
                = (\<lparr> status = 400, success = False,
                      message = ''Invalid or expired verification token.'',
                      data = NoData, errorId = None, retryAfter = None \<rparr>, store')"
    using verifyEmail_rejects[OF assms(3), of store' sha256] unfolding failure_def by blast
  have mem: "?u \<in> set store'"
    unfolding s using findOne_SomeD[OF assms(2)] by (intro save_member[of user]) simp_all
  show "\<forall>now'. rnd \<noteq> [] \<and> now' < now + 24 * 60 * 60 * 1000
           \<longrightarrow> status (fst (verifyEmail sha256 now' store' (QString rnd))) = 200"
    unfolding verifyEmail_200_iff using mem by (intro allI impI) (auto intro!: bexI[of _ ?u])
next
  let ?u = "user\<lparr> passwordResetToken := Some (sha256 rnd),
                    passwordResetExpires := Some (now + 600000) \<rparr>"
  assume a: "(\<forall>d\<in>set store. passwordResetToken d = Some (sha256 old) \<longrightarrow> u_id d = u_id user)
            \<and> forgotPassword toLowerCase sha256 rnd sendOk uuid now store em = (r2, store2)"
  then have s: "store2 = save ?u store"
    using forgotPassword_store
            [where toLowerCase = toLowerCase and ?sha256.0 = sha256 and rnd = rnd
               and sendOk = sendOk and uuid = uuid and now = now, OF assms(1,2)] by simp
  show "\<forall>d\<in>set store2. u_id d = u_id user
          \<longrightarrow> passwordResetToken d = Some (sha256 rnd)
            \<and> passwordResetExpires d = Some (now + 10 * 60 * 1000)"
    unfolding s by (auto dest: set_saveD)
  have "\<forall>d\<in>set store2. \<not> reset_live sha256 now' old d" for now'
    unfolding s using a assms(4) by (auto dest!: set_saveD)
  then show "\<forall>now' pw. 8 \<le> length pw
                \<longrightarrow> resetPassword sha256 hashPassword now' store2 old pw
                = (\<lparr> status = 400, success = False,
                      message = ''Invalid or expired reset token.'',
                      data = NoData, errorId = None, retryAfter = None \<rparr>, store2)"
    using resetPassword_rejects[OF assms(3), of _ store2 sha256 _ hashPassword]
    unfolding failure_def by blast
  have mem: "?u \<in> set store2"
    unfolding s using findOne_SomeD[OF assms(2)] by (intro save_member[of user]) simp_all
  show "\<forall>now' pw. rnd \<noteq> [] \<and> 8 \<le> length pw \<and> now' < now + 10 * 60 * 1000
           \<longrightarrow> status (fst (resetPassword sha256 hashPassword now' store2 rnd pw)) = 200"
    unfolding resetPassword_200_iff using mem by (intro allI impI) (auto intro!: bexI[of _ ?u])
qed


theorem reissue_invalidates_previous_token_witness:
  "status (fst (verifyEmail example_hash 1500 [bob, alice] (QString ''tok-a''))) = 200
   \<and> verifyEmail example_hash 1500
        (snd (resendVerification example_toLowerCase example_hash ''tok-new'' True ''id-1'' 1000 [bob, alice] ''Alice@X.com''))
        (QString ''tok-a'')
      = (\<lparr> status = 400, success = False, message = ''Invalid or expired verification token.'',
            data = NoData, errorId = None, retryAfter = None \<rparr>,
         snd (resendVerification example_toLowerCase example_hash ''tok-new'' True ''id-1'' 1000 [bob, alice] ''Alice@X.com''))
   \<and> status (fst (verifyEmail example_hash 1500
        (snd (resendVerification example_toLowerCase example_hash ''tok-new'' True ''id-1'' 1000 [bob, alice] ''Alice@X.com''))
        (QString ''tok-new''))) = 200
   \<and> status (fst (resetPassword example_hash example_hash 1500 [bob, alice] ''rst-a'' ''new-password'')) = 200
   \<and> resetPassword example_hash example_hash 1500
        (snd (forgotPassword example_toLowerCase example_hash ''rst-new'' True ''id-1'' 1000 [bob, alice] ''Alice@X.com''))
        ''rst-a'' ''new-password''
      = (\<lparr> status = 400, success = False, message = ''Invalid or expired reset token.'',
            data = NoData, errorId = None, retryAfter = None \<rparr>,
         snd (forgotPassword example_toLowerCase example_hash ''rst-new'' True ''id-1'' 1000 [bob, alice] ''Alice@X.com''))
   \<and> status (fst (resetPassword example_hash example_hash 1500
        (snd (forgotPassword example_toLowerCase example_hash ''rst-new'' True ''id-1'' 1000 [bob, alice] ''Alice@X.com''))
        ''rst-new'' ''new-password'')) = 200"
proof -
  have f: "findOne (\<lambda>d. email d = example_toLowerCase ''Alice@X.com'') [bob, alice] = Some alice"
    by (simp add: findOne_def example_lower alice_simps bob_simps)
  have before:
    "status (fst (verifyEmail example_hash 1500 [bob, alice] (QString ''tok-a''))) = 200"
    "status (fst (resetPassword example_hash example_hash 1500 [bob, alice] ''rst-a'' ''new-password'')) = 200"
    by (simp_all add: verifyEmail_def resetPassword_def findOne_def date_gt_def ok_def
          alice_simps bob_simps example_hash_def)
  note T = reissue_invalidates_previous_token
             [where em = "''Alice@X.com''" and store = "[bob, alice]" and user = alice
                and toLowerCase = example_toLowerCase
                and ?sha256.0 = example_hash and sendOk = True and uuid = "''id-1''" and now = 1000
                and hashPassword = example_hash, OF _ f]
  have v: "verifyEmail example_hash 1500
        (snd (resendVerification example_toLowerCase example_hash ''tok-new'' True ''id-1'' 1000 [bob, alice] ''Alice@X.com''))
        (QString ''tok-a'')
      = (\<lparr> status = 400, success = False, message = ''Invalid or expired verification token.'',
            data = NoData, errorId = None, retryAfter = None \<rparr>,
         snd (resendVerification example_toLowerCase example_hash ''tok-new'' True ''id-1'' 1000 [bob, alice] ''Alice@X.com''))
     \<and> status (fst (verifyEmail example_hash 1500
        (snd (resendVerification example_toLowerCase example_hash ''tok-new'' True ''id-1'' 1000 [bob, alice] ''Alice@X.com''))
        (QString ''tok-new''))) = 200"
    using T [where old = "''tok-a''" and rnd = "''tok-new''"
               and r = "fst (resendVerification example_toLowerCase example_hash ''tok-new'' True ''id-1'' 1000 [bob, alice] ''Alice@X.com'')"
               and store' = "snd (resendVerification example_toLowerCase example_hash ''tok-new'' True ''id-1'' 1000 [bob, alice] ''Alice@X.com'')"]
    by (simp add: alice_simps bob_simps example_hash_def)
  have p: "resetPassword example_hash example_hash 1500
        (snd (forgotPassword example_toLowerCase example_hash ''rst-new'' True ''id-1'' 1000 [bob, alice] ''Alice@X.com''))
        ''rst-a'' ''new-password''
      = (\<lparr> status = 400, success = False, message = ''Invalid or expired reset token.'',
            data = NoData, errorId = None, retryAfter = None \<rparr>,
         snd (forgotPassword example_toLowerCase example_hash ''rst-new'' True ''id-1'' 1000 [bob, alice] ''Alice@X.com''))
     \<and> status (fst (resetPassword example_hash example_hash 1500
        (snd (forgotPassword example_toLowerCase example_hash ''rst-new'' True ''id-1'' 1000 [bob, alice] ''Alice@X.com''))
        ''rst-new'' ''new-password'')) = 200"
    using T [where old = "''rst-a''" and rnd = "''rst-new''"
               and ?r2.0 = "fst (forgotPassword example_toLowerCase example_hash ''rst-new'' True ''id-1'' 1000 [bob, alice] ''Alice@X.com'')"
               and ?store2.0 = "snd (forgotPassword example_toLowerCase example_hash ''rst-new'' True ''id-1'' 1000 [bob, alice] ''Alice@X.com'')"]
    by (simp add: alice_simps bob_simps example_hash_def)
  from before v p show ?thesis by simp
qed

end
